theory Spec2Isabelle
  imports Main "HOL-Library.Multiset"
begin

section \<open>Data model\<close>

text \<open>
  The manager graph of open-swe: the state handed to every node, the partial update a
  node returns, and the messages both carry. Optional properties of the TypeScript
  types are \<open>option\<close> fields; an update's absent key is \<open>None\<close>.
\<close>

datatype error = Error string

text \<open>\<open>_getType()\<close> of a message; \<open>isHumanMessage\<close> tests for \<open>Human\<close>.\<close>

datatype msg_type = Human | Ai | System | Tool | Remove

record additional_kwargs =
  kw_githubIssueId :: "nat option"
  kw_githubIssueCommentId :: "nat option"
  kw_isOriginalIssue :: "bool option"
  kw_isFollowup :: "bool option"
  kw_requestSource :: "string option"

text \<open>The argument object of the \<open>respond_and_route\<close> tool; the route is a plain string.\<close>

record tool_call_args =
  route :: string
  response :: string
  internal_reasoning :: string

record message =
  msg_id :: "string option"
  getType :: msg_type
  content :: string
  kwargs :: additional_kwargs
  tool_calls :: "tool_call_args list"

record targetRepository =
  owner :: string
  repo :: string

text \<open>
  The declaration of \<open>TaskPlan\<close> lives in the shared package; the model keeps the two
  fields the nodes read (\<open>tasks\<close>, \<open>activeTaskIndex\<close>).
\<close>

record taskPlan =
  tasks :: "string list"
  activeTaskIndex :: nat

record session =
  threadId :: string
  runId :: string

record managerGraphState =
  messages :: "message list"
  githubIssueId :: "nat option"
  targetRepo :: targetRepository
  stateTaskPlan :: "taskPlan option"
  plannerSession :: "session option"
  programmerSession :: "session option"
  branchName :: "string option"
  autoAcceptPlan :: "bool option"

record managerGraphUpdate =
  upd_messages :: "message list option"
  upd_githubIssueId :: "nat option"
  upd_targetRepo :: "targetRepository option"
  upd_taskPlan :: "taskPlan option"
  upd_plannerSession :: "session option"
  upd_programmerSession :: "session option"
  upd_branchName :: "string option"
  upd_autoAcceptPlan :: "bool option"

datatype goto = END | Node string

record command =
  cmd_update :: managerGraphUpdate
  cmd_goto :: goto

datatype graph_id = MANAGER_GRAPH_ID | PLANNER_GRAPH_ID

section \<open>Collaborators and their calls\<close>

text \<open>What a thread of the run-execution service reports: its status and, for the planner
  thread, the thread id of the programmer session stored in its values.\<close>

record thread =
  status :: string
  programmerThreadId :: "string option"

record issuePlans =
  plansTaskPlan :: "taskPlan option"
  proposedPlan :: "string list option"

text \<open>The arguments of \<open>createClassificationPromptAndToolSchema\<close> together with the user
  content: everything the single classification call is built from.\<close>

record classification_request =
  req_programmerStatus :: string
  req_plannerStatus :: string
  req_messages :: "message list"
  req_taskPlan :: "taskPlan option"
  req_proposedPlan :: "string list option"
  req_requestSource :: "string option"
  req_userContent :: string

record issue_request =
  ir_owner :: string
  ir_repo :: string
  ir_title :: string
  ir_body :: string

record comment_request =
  cr_owner :: string
  cr_repo :: string
  cr_issueNumber :: nat
  cr_body :: string

record plannerGraphUpdate =
  pl_githubIssueId :: "nat option"
  pl_targetRepo :: targetRepository
  pl_taskPlan :: "taskPlan option"
  pl_branchName :: string
  pl_autoAcceptPlan :: "bool option"
  pl_messages :: "message option list option"

text \<open>The third argument of \<open>runs.create\<close>: a fresh planner run (\<open>ifNotExists: "create"\<close>),
  a resume command, or a manager run driven by a command (update and goto).\<close>

datatype run_payload =
    PlannerRun plannerGraphUpdate
  | ResumeRun string string
  | ManagerCommandRun managerGraphUpdate string
  | ManagerInputRun managerGraphUpdate bool

record run =
  run_id :: string
  run_status :: string

record issue =
  issue_title :: string
  issue_body :: "string option"

text \<open>The two comments the webhook handler posts: the acknowledgment (sender login, app
  URL, run id, thread id) and the error note (the error's message).\<close>

datatype webhook_comment =
    Triggered string "string option" string string
  | Failed string

text \<open>Every call that leaves the process, with its arguments, in the order issued.\<close>

datatype effect =
    ThreadsGet string
  | GetPlansFromIssue nat
  | InvokeModel classification_request
  | CreateIssueFields "message list"
  | CreateIssue issue_request
  | CreateIssueComment comment_request
  | RunsCreate string graph_id run_payload
  | RegenerateInstallationToken
  | GetIssue string string nat
  | GetInstallationOctokit nat
  | GetInstallationAccessToken nat
  | PostIssueComment string string nat webhook_comment

text \<open>
  The collaborators' answers. A rejected promise is \<open>Inl\<close>; a helper that answers
  \<open>null\<close> is \<open>None\<close>. Helpers of the repository that are not part of the files at hand
  (\<open>getPlansFromIssue\<close>, \<open>extractTasksFromIssueContent\<close>, \<open>getRecentUserRequest\<close>,
  the content extractors, \<open>getBranchName\<close>) are fields as well, and so are the four
  tag constants of \<open>issue-messages\<close> (title open and close, content open and close).
  \<open>createIssueComment\<close> is asked with the index of the call, since one pass issues
  several; \<open>completionTime\<close> says when the call with that index settles.
  The helpers that only read the configuration or build a client
  (\<open>getGitHubTokensFromConfig\<close>, \<open>getDefaultHeaders\<close>, \<open>getCustomConfigurableFields\<close>,
  \<open>createLangGraphClient\<close>, \<open>encryptSecret\<close>) have no field: the tokens and headers they
  yield are not part of the model, and they are taken to return.
\<close>

record services =
  isLocalMode :: bool
  hasGithubPat :: bool
  uuidv4 :: "nat \<Rightarrow> string"
  threadsGet :: "string \<Rightarrow> error + thread"
  getPlansFromIssue :: "managerGraphState \<Rightarrow> error + issuePlans option"
  loadModel :: "error option"
  invokeModel :: "classification_request \<Rightarrow> error + message"
  extractContentWithoutDetailsFromIssueBody :: "string \<Rightarrow> string"
  createIssueFieldsFromMessages :: "message list \<Rightarrow> error + string \<times> string"
  extractIssueTitleAndContentFromMessage :: "string \<Rightarrow> string"
  formatContentForIssueBody :: "string \<Rightarrow> string"
  createIssue :: "issue_request \<Rightarrow> error + nat option"
  createIssueComment :: "nat \<Rightarrow> comment_request \<Rightarrow> error + nat option"
  completionTime :: "nat \<Rightarrow> nat"
  runsCreate :: "string \<Rightarrow> graph_id \<Rightarrow> run_payload \<Rightarrow> error + run"
  regenerateInstallationToken :: "error + string"
  getRecentUserRequest :: "message list \<Rightarrow> message option"
  getBranchName :: string
  getIssue :: "string \<Rightarrow> string \<Rightarrow> nat \<Rightarrow> error + issue option"
  extractTasksFromIssueContent :: "string \<Rightarrow> taskPlan option"
  getMessageContentFromIssue :: "issue \<Rightarrow> string"
  issueTags :: "(string \<times> string) \<times> (string \<times> string)"

text \<open>An asynchronous computation: its outcome and the calls it issued.\<close>

type_synonym 'a io = "(error + 'a) \<times> effect list"

definition ret :: "'a \<Rightarrow> 'a io" where
  "ret x = (Inr x, [])"

definition throw :: "error \<Rightarrow> 'a io" where
  "throw e = (Inl e, [])"

definition call :: "effect \<Rightarrow> error + 'a \<Rightarrow> 'a io" where
  "call eff answer = (answer, [eff])"

definition io_bind :: "'a io \<Rightarrow> ('a \<Rightarrow> 'b io) \<Rightarrow> 'b io" where
  "io_bind m f =
     (case m of
        (Inl e, tr) \<Rightarrow> (Inl e, tr)
      | (Inr x, tr) \<Rightarrow> (case f x of (r, tr') \<Rightarrow> (r, tr @ tr')))"

text \<open>JavaScript truthiness of an optional number and of an optional string.\<close>

definition truthy_num :: "nat option \<Rightarrow> bool" where
  "truthy_num v = (case v of None \<Rightarrow> False | Some n \<Rightarrow> n \<noteq> 0)"

definition truthy_str :: "string option \<Rightarrow> bool" where
  "truthy_str v = (case v of None \<Rightarrow> False | Some s \<Rightarrow> s \<noteq> [])"

definition isHumanMessage :: "message \<Rightarrow> bool" where
  "isHumanMessage m = (getType m = Human)"

definition findLast :: "('a \<Rightarrow> bool) \<Rightarrow> 'a list \<Rightarrow> 'a option" where
  "findLast p xs = find p (rev xs)"

definition empty_kwargs :: additional_kwargs where
  "empty_kwargs = \<lparr>kw_githubIssueId = None, kw_githubIssueCommentId = None,
     kw_isOriginalIssue = None, kw_isFollowup = None, kw_requestSource = None\<rparr>"

definition RemoveMessage :: "string \<Rightarrow> message" where
  "RemoveMessage i = \<lparr>msg_id = Some i, getType = Remove, content = [],
     kwargs = empty_kwargs, tool_calls = []\<rparr>"

definition empty_update :: managerGraphUpdate where
  "empty_update = \<lparr>upd_messages = None, upd_githubIssueId = None, upd_targetRepo = None,
     upd_taskPlan = None, upd_plannerSession = None, upd_programmerSession = None,
     upd_branchName = None, upd_autoAcceptPlan = None\<rparr>"

definition HumanMessage_copy :: "message \<Rightarrow> additional_kwargs \<Rightarrow> message" where
  "HumanMessage_copy m kw = m\<lparr>getType := Human, kwargs := kw\<rparr>"

section \<open>classifyMessage\<close>

text \<open>\<open>threads.get\<close> is asked only for a truthy thread id.\<close>

definition getThreadIfSet :: "services \<Rightarrow> string option \<Rightarrow> thread option io" where
  "getThreadIfSet env tid =
     (case tid of
        None \<Rightarrow> ret None
      | Some t \<Rightarrow>
          if t = [] then ret None
          else io_bind (call (ThreadsGet t) (threadsGet env t)) (\<lambda>th. ret (Some th)))"

definition plannerThreadId :: "managerGraphState \<Rightarrow> string option" where
  "plannerThreadId st = map_option threadId (plannerSession st)"

definition fetchThreads ::
  "services \<Rightarrow> managerGraphState \<Rightarrow> (thread option \<times> thread option) io" where
  "fetchThreads env st =
     (if \<not> isLocalMode env then
        io_bind (getThreadIfSet env (plannerThreadId st)) (\<lambda>plannerThread.
        io_bind (getThreadIfSet env
                   (case plannerThread of None \<Rightarrow> None | Some t \<Rightarrow> programmerThreadId t))
          (\<lambda>programmerThread. ret (plannerThread, programmerThread)))
      else ret (None, None))"

definition statusOf :: "thread option \<Rightarrow> string" where
  "statusOf t = (case t of None \<Rightarrow> ''not_started'' | Some th \<Rightarrow> status th)"

definition fetchIssuePlans :: "services \<Rightarrow> managerGraphState \<Rightarrow> issuePlans option io" where
  "fetchIssuePlans env st =
     (case githubIssueId st of
        None \<Rightarrow> ret None
      | Some n \<Rightarrow>
          if n = 0 then ret None
          else call (GetPlansFromIssue n) (getPlansFromIssue env st))"

text \<open>\<open>issuePlans?.taskPlan ?? state.taskPlan\<close>\<close>

definition classificationTaskPlan ::
  "issuePlans option \<Rightarrow> managerGraphState \<Rightarrow> taskPlan option" where
  "classificationTaskPlan plans st =
     (case plans of
        None \<Rightarrow> stateTaskPlan st
      | Some p \<Rightarrow> (case plansTaskPlan p of None \<Rightarrow> stateTaskPlan st | Some tp \<Rightarrow> Some tp))"

definition classificationRequest ::
  "services \<Rightarrow> managerGraphState \<Rightarrow> message \<Rightarrow> thread option \<times> thread option \<Rightarrow>
   issuePlans option \<Rightarrow> classification_request" where
  "classificationRequest env st userMessage threads plans =
     \<lparr>req_programmerStatus = statusOf (snd threads),
      req_plannerStatus = statusOf (fst threads),
      req_messages = messages st,
      req_taskPlan = classificationTaskPlan plans st,
      req_proposedPlan = (case plans of None \<Rightarrow> None | Some p \<Rightarrow> proposedPlan p),
      req_requestSource = kw_requestSource (kwargs userMessage),
      req_userContent = extractContentWithoutDetailsFromIssueBody env (content userMessage)\<rparr>"

text \<open>The one call of the router model, and the first tool call of its reply.\<close>

definition invokeRouter ::
  "services \<Rightarrow> classification_request \<Rightarrow> (message \<times> tool_call_args) io" where
  "invokeRouter env req =
     (case loadModel env of
        Some e \<Rightarrow> throw e
      | None \<Rightarrow>
          io_bind (call (InvokeModel req) (invokeModel env req)) (\<lambda>reply.
            case tool_calls reply of
              [] \<Rightarrow> throw (Error ''No tool call found.'')
            | toolCall # _ \<Rightarrow> ret (reply, toolCall)))"

definition mkCommand :: "managerGraphUpdate \<Rightarrow> goto \<Rightarrow> command" where
  "mkCommand u g = \<lparr>cmd_update = u, cmd_goto = g\<rparr>"

text \<open>The tail of the function: the issue exists and nothing was left to mirror.\<close>

definition finalRoute :: "nat option \<Rightarrow> message list \<Rightarrow> string \<Rightarrow> command io" where
  "finalRoute gid newMessages r =
     (let commandUpdate = empty_update\<lparr>upd_messages := Some newMessages,
            upd_githubIssueId := (if truthy_num gid then gid else None)\<rparr>
      in if r = ''update_programmer'' \<or> r = ''update_planner'' \<or>
            r = ''resume_and_update_planner''
         then ret (mkCommand commandUpdate END)
         else if r = ''start_planner'' \<or> r = ''start_planner_for_followup''
         then ret (mkCommand commandUpdate (Node ''start-planner''))
         else throw (Error (''Invalid route: '' @ r)))"

definition createIssueBranch ::
  "services \<Rightarrow> managerGraphState \<Rightarrow> message \<Rightarrow> message \<Rightarrow> string \<Rightarrow> command io" where
  "createIssueBranch env st userMessage reply r =
     io_bind (call (CreateIssueFields (messages st))
                (createIssueFieldsFromMessages env (messages st))) (\<lambda>fields.
     let req = \<lparr>ir_owner = owner (targetRepo st), ir_repo = repo (targetRepo st),
                ir_title = fst fields,
                ir_body = formatContentForIssueBody env
                  (extractIssueTitleAndContentFromMessage env (content userMessage))\<rparr>
     in io_bind (call (CreateIssue req) (createIssue env req)) (\<lambda>newIssue.
          case newIssue of
            None \<Rightarrow> throw (Error ''Failed to create issue.'')
          | Some number \<Rightarrow>
              finalRoute (Some number)
                [reply,
                 RemoveMessage (case msg_id userMessage of None \<Rightarrow> [] | Some i \<Rightarrow> i),
                 HumanMessage_copy userMessage
                   (empty_kwargs\<lparr>kw_githubIssueId := Some number,
                      kw_isOriginalIssue := Some True\<rparr>)]
                r))"

text \<open>
  The mirroring branch. The human messages whose \<open>additional_kwargs\<close> carry no
  \<open>githubIssueId\<close> get one comment each. The \<open>map\<close> of the source starts every call
  before any of them settles, so the calls are issued in list order; each callback
  pushes its pair (removal, tagged copy) when its own call settles, so the pairs stand
  in completion order, and \<open>Promise.all\<close> rejects with the first failure to settle.
\<close>

definition messagesNotInIssue :: "managerGraphState \<Rightarrow> message list" where
  "messagesNotInIssue st =
     filter (\<lambda>message. \<not> truthy_num (kw_githubIssueId (kwargs message)))
       (filter isHumanMessage (messages st))"

definition commentRequest :: "managerGraphState \<Rightarrow> nat \<Rightarrow> message \<Rightarrow> comment_request" where
  "commentRequest st n message =
     \<lparr>cr_owner = owner (targetRepo st), cr_repo = repo (targetRepo st),
      cr_issueNumber = n, cr_body = content message\<rparr>"

definition taggedCopy :: "nat \<Rightarrow> nat option \<Rightarrow> string \<Rightarrow> message \<Rightarrow> message" where
  "taggedCopy n commentId r message =
     HumanMessage_copy message
       (empty_kwargs\<lparr>kw_githubIssueId := Some n,
          kw_githubIssueCommentId := commentId,
          kw_isFollowup := (if r = ''start_planner_for_followup'' then Some True else None)\<rparr>)"

definition commentOutcome ::
  "services \<Rightarrow> managerGraphState \<Rightarrow> nat \<Rightarrow> string \<Rightarrow> nat \<times> message \<Rightarrow> error + message list" where
  "commentOutcome env st n r im =
     (case createIssueComment env (fst im) (commentRequest st n (snd im)) of
        Inl e \<Rightarrow> Inl e
      | Inr created \<Rightarrow>
          if \<not> truthy_num created then Inl (Error ''Failed to create issue comment'')
          else Inr [RemoveMessage (case msg_id (snd im) of None \<Rightarrow> [] | Some i \<Rightarrow> i),
                    taggedCopy n created r (snd im)])"

fun collect :: "(error + 'a list) list \<Rightarrow> error + 'a list" where
  "collect [] = Inr []"
| "collect (Inl e # rest) = Inl e"
| "collect (Inr xs # rest) = (case collect rest of Inl e \<Rightarrow> Inl e | Inr ys \<Rightarrow> Inr (xs @ ys))"

definition completionOrder :: "services \<Rightarrow> (nat \<times> message) list \<Rightarrow> (nat \<times> message) list" where
  "completionOrder env ims = sort_key (\<lambda>im. completionTime env (fst im)) ims"

definition createComments ::
  "services \<Rightarrow> managerGraphState \<Rightarrow> nat \<Rightarrow> string \<Rightarrow> message list io" where
  "createComments env st n r =
     (let ims = enumerate 0 (messagesNotInIssue st)
      in (collect (map (commentOutcome env st n r) (completionOrder env ims)),
          map (\<lambda>im. CreateIssueComment (commentRequest st n (snd im))) ims))"

text \<open>The resume of an interrupted planner: a \<open>runs.create\<close> with a resume command
  against the thread id of the state's planner session.\<close>

definition resumePlanner ::
  "services \<Rightarrow> managerGraphState \<Rightarrow> string \<Rightarrow> string option io" where
  "resumePlanner env st plannerStatus =
     (if plannerStatus = ''interrupted'' then
        (case plannerThreadId st of
           None \<Rightarrow> throw (Error ''No planner session found. Unable to resume planner.'')
         | Some tid \<Rightarrow>
             if tid = [] then throw (Error ''No planner session found. Unable to resume planner.'')
             else if isLocalMode env then throw (Error ''LangGraph client not initialized'')
             else io_bind
                    (call (RunsCreate tid PLANNER_GRAPH_ID (ResumeRun ''response'' ''resume planner''))
                       (runsCreate env tid PLANNER_GRAPH_ID (ResumeRun ''response'' ''resume planner'')))
                    (\<lambda>newPlannerRun. ret (Some (run_id newPlannerRun))))
      else ret None)"

definition mirrorUpdate ::
  "managerGraphState \<Rightarrow> message list \<Rightarrow> string option \<Rightarrow> managerGraphUpdate" where
  "mirrorUpdate st newMessages newPlannerId =
     empty_update\<lparr>upd_messages := Some newMessages,
       upd_plannerSession :=
         (case (newPlannerId, plannerThreadId st) of
            (Some rid, Some tid) \<Rightarrow>
              if rid \<noteq> [] \<and> tid \<noteq> [] then Some \<lparr>threadId = tid, runId = rid\<rparr> else None
          | _ \<Rightarrow> None)\<rparr>"

definition mirrorBranch ::
  "services \<Rightarrow> managerGraphState \<Rightarrow> nat \<Rightarrow> string \<Rightarrow> message \<Rightarrow> string \<Rightarrow> command io" where
  "mirrorBranch env st n plannerStatus reply r =
     io_bind (createComments env st n r) (\<lambda>pushed.
     io_bind (resumePlanner env st plannerStatus) (\<lambda>newPlannerId.
       ret (mkCommand (mirrorUpdate st (reply # pushed) newPlannerId)
              (if r = ''start_planner_for_followup'' then Node ''start-planner'' else END))))"

definition replyOnly :: "message \<Rightarrow> managerGraphUpdate" where
  "replyOnly reply = empty_update\<lparr>upd_messages := Some [reply]\<rparr>"

text \<open>Everything after the classification: the early returns, local mode, and the three
  cases on the issue id.\<close>

definition routeMessage ::
  "services \<Rightarrow> managerGraphState \<Rightarrow> message \<Rightarrow> string \<Rightarrow> message \<Rightarrow> string \<Rightarrow> command io" where
  "routeMessage env st userMessage plannerStatus reply r =
     (if r = ''no_op'' then ret (mkCommand (replyOnly reply) END)
      else if r = ''create_new_issue''
      then ret (mkCommand (replyOnly reply) (Node ''create-new-session''))
      else if isLocalMode env then
        (if r = ''start_planner'' \<or> r = ''start_planner_for_followup''
         then ret (mkCommand (replyOnly reply) (Node ''start-planner''))
         else throw (Error (''Unsupported route for local mode received: '' @ r)))
      else
        (case githubIssueId st of
           None \<Rightarrow> createIssueBranch env st userMessage reply r
         | Some n \<Rightarrow>
             if n = 0 then createIssueBranch env st userMessage reply r
             else if length (filter isHumanMessage (messages st)) > 1
             then mirrorBranch env st n plannerStatus reply r
             else finalRoute (Some n) [reply] r))"

text \<open>The function from the point where the user message is known.\<close>

definition classifyFrom :: "services \<Rightarrow> managerGraphState \<Rightarrow> message \<Rightarrow> command io" where
  "classifyFrom env st userMessage =
     io_bind (fetchThreads env st) (\<lambda>threads.
     io_bind (fetchIssuePlans env st) (\<lambda>plans.
     io_bind (invokeRouter env (classificationRequest env st userMessage threads plans))
       (\<lambda>classified.
          routeMessage env st userMessage (statusOf (fst threads)) (fst classified)
            (route (snd classified)))))"

definition classifyMessage :: "services \<Rightarrow> managerGraphState \<Rightarrow> command io" where
  "classifyMessage env st =
     (case findLast isHumanMessage (messages st) of
        None \<Rightarrow> throw (Error ''No human message found.'')
      | Some userMessage \<Rightarrow> classifyFrom env st userMessage)"

section \<open>startPlanner\<close>

definition refreshToken :: "services \<Rightarrow> unit io" where
  "refreshToken env =
     (if \<not> isLocalMode env \<and> \<not> hasGithubPat env
      then io_bind (call RegenerateInstallationToken (regenerateInstallationToken env))
             (\<lambda>token. ret ())
      else ret ())"

definition plannerRunInput :: "services \<Rightarrow> managerGraphState \<Rightarrow> plannerGraphUpdate" where
  "plannerRunInput env st =
     (let followupMessage = getRecentUserRequest env (messages st)
      in \<lparr>pl_githubIssueId = githubIssueId st,
          pl_targetRepo = targetRepo st,
          pl_taskPlan = stateTaskPlan st,
          pl_branchName = (case branchName st of None \<Rightarrow> getBranchName env | Some b \<Rightarrow> b),
          pl_autoAcceptPlan = autoAcceptPlan st,
          pl_messages = (if followupMessage \<noteq> None \<or> isLocalMode env
                         then Some [followupMessage] else None)\<rparr>)"

text \<open>\<open>state.plannerSession?.threadId ?? uuidv4()\<close>\<close>

definition plannerThreadOf :: "services \<Rightarrow> managerGraphState \<Rightarrow> string" where
  "plannerThreadOf env st =
     (case plannerSession st of None \<Rightarrow> uuidv4 env 0 | Some ps \<Rightarrow> threadId ps)"

text \<open>The thread id, then the token, then the run; the \<open>catch\<close> of the source logs and
  rethrows, so a failed run is the error itself.\<close>

definition startPlanner :: "services \<Rightarrow> managerGraphState \<Rightarrow> managerGraphUpdate io" where
  "startPlanner env st =
     io_bind (refreshToken env) (\<lambda>u.
     io_bind (call (RunsCreate (plannerThreadOf env st) PLANNER_GRAPH_ID
                      (PlannerRun (plannerRunInput env st)))
                (runsCreate env (plannerThreadOf env st) PLANNER_GRAPH_ID
                   (PlannerRun (plannerRunInput env st))))
       (\<lambda>r. ret (empty_update\<lparr>upd_plannerSession :=
                    Some \<lparr>threadId = plannerThreadOf env st, runId = run_id r\<rparr>\<rparr>)))"

section \<open>createNewSession\<close>

definition AIMessage :: "string \<Rightarrow> string \<Rightarrow> message" where
  "AIMessage i c = \<lparr>msg_id = Some i, getType = Ai, content = c, kwargs = empty_kwargs,
     tool_calls = []\<rparr>"

definition HumanMessage :: "string \<Rightarrow> string \<Rightarrow> additional_kwargs \<Rightarrow> message" where
  "HumanMessage i c kw = \<lparr>msg_id = Some i, getType = Human, content = c, kwargs = kw,
     tool_calls = []\<rparr>"

definition issueMessageContent :: "services \<Rightarrow> string \<Rightarrow> string \<Rightarrow> string" where
  "issueMessageContent env t b =
     fst (fst (issueTags env)) @ [CHR 0x0A] @ ''  '' @ t @ [CHR 0x0A] @
     snd (fst (issueTags env)) @ [CHR 0x0A, CHR 0x0A] @
     fst (snd (issueTags env)) @ [CHR 0x0A] @ ''  '' @ b @ [CHR 0x0A] @
     snd (snd (issueTags env))"

definition sessionCreatedContent :: "string \<Rightarrow> string" where
  "sessionCreatedContent tid =
     ''Success! I just created a new session for your request. Thread ID: '' @ [CHR 0x60] @
     tid @ [CHR 0x60, CHR 0x0A, CHR 0x0A] @ ''Click [here](/chat/'' @ tid @
     '') to view the thread.''"

definition newSessionUpdate ::
  "services \<Rightarrow> managerGraphState \<Rightarrow> string \<times> string \<Rightarrow> nat \<Rightarrow> managerGraphUpdate" where
  "newSessionUpdate env st titleAndContent number =
     empty_update\<lparr>
       upd_githubIssueId := Some number,
       upd_targetRepo := Some (targetRepo st),
       upd_messages := Some
         [HumanMessage (uuidv4 env 0)
            (issueMessageContent env (fst titleAndContent) (snd titleAndContent))
            (empty_kwargs\<lparr>kw_githubIssueId := Some number, kw_isOriginalIssue := Some True\<rparr>),
          AIMessage (uuidv4 env 1)
            (''I've successfully created a new GitHub issue for your request, '' @
             ''and started a planning session for it!'')],
       upd_branchName := Some (case branchName st of None \<Rightarrow> getBranchName env | Some b \<Rightarrow> b)\<rparr>"

definition newIssueRequest :: "services \<Rightarrow> managerGraphState \<Rightarrow> string \<times> string \<Rightarrow> issue_request" where
  "newIssueRequest env st titleAndContent =
     \<lparr>ir_owner = owner (targetRepo st), ir_repo = repo (targetRepo st),
      ir_title = fst titleAndContent,
      ir_body = formatContentForIssueBody env (snd titleAndContent)\<rparr>"

definition createNewSession :: "services \<Rightarrow> managerGraphState \<Rightarrow> managerGraphUpdate io" where
  "createNewSession env st =
     io_bind (call (CreateIssueFields (messages st))
                (createIssueFieldsFromMessages env (messages st))) (\<lambda>titleAndContent.
     let req = newIssueRequest env st titleAndContent
     in io_bind (call (CreateIssue req) (createIssue env req)) (\<lambda>newIssue.
          case newIssue of
            None \<Rightarrow> throw (Error ''Failed to create new issue'')
          | Some number \<Rightarrow>
              io_bind (refreshToken env) (\<lambda>u.
              let newManagerThreadId = uuidv4 env 2;
                  payload = ManagerCommandRun (newSessionUpdate env st titleAndContent number)
                              ''start-planner''
              in io_bind (call (RunsCreate newManagerThreadId MANAGER_GRAPH_ID payload)
                            (runsCreate env newManagerThreadId MANAGER_GRAPH_ID payload))
                   (\<lambda>r. ret (empty_update\<lparr>upd_messages := Some
                           [AIMessage (uuidv4 env 3)
                              (sessionCreatedContent newManagerThreadId)]\<rparr>)))))"

section \<open>initializeGithubIssue\<close>

text \<open>The plan of the issue body replaces the plan of the state when the body is not
  empty and a plan can be extracted from it.\<close>

definition planFromIssue :: "services \<Rightarrow> issue \<Rightarrow> taskPlan option \<Rightarrow> taskPlan option" where
  "planFromIssue env i current =
     (case issue_body i of
        None \<Rightarrow> current
      | Some b \<Rightarrow>
          if b = [] then current
          else (case extractTasksFromIssueContent env b of
                  None \<Rightarrow> current
                | Some extracted \<Rightarrow> Some extracted))"

definition fetchIssue :: "services \<Rightarrow> managerGraphState \<Rightarrow> nat \<Rightarrow> issue io" where
  "fetchIssue env st n =
     io_bind (call (GetIssue (owner (targetRepo st)) (repo (targetRepo st)) n)
                (getIssue env (owner (targetRepo st)) (repo (targetRepo st)) n))
       (\<lambda>found. case found of
                  None \<Rightarrow> throw (Error ''Issue not found'')
                | Some i \<Rightarrow> ret i)"

text \<open>The state's \<open>targetRepository\<close> is not optional in its type, so the guard on it in the
  source has no branch here.\<close>

definition initializeGithubIssue ::
  "services \<Rightarrow> managerGraphState \<Rightarrow> managerGraphUpdate io" where
  "initializeGithubIssue env st =
     (if isLocalMode env then ret empty_update
      else if messages st \<noteq> [] \<and> list_ex isHumanMessage (messages st) then
        (case githubIssueId st of
           None \<Rightarrow> ret (empty_update\<lparr>upd_taskPlan := stateTaskPlan st\<rparr>)
         | Some n \<Rightarrow>
             if n = 0 then ret (empty_update\<lparr>upd_taskPlan := stateTaskPlan st\<rparr>)
             else io_bind (fetchIssue env st n) (\<lambda>i.
                    ret (empty_update\<lparr>upd_taskPlan := planFromIssue env i (stateTaskPlan st)\<rparr>)))
      else
        (case githubIssueId st of
           None \<Rightarrow> throw (Error ''GitHub issue ID not provided'')
         | Some n \<Rightarrow>
             if n = 0 then throw (Error ''GitHub issue ID not provided'')
             else io_bind (fetchIssue env st n) (\<lambda>i.
                    ret (empty_update\<lparr>
                      upd_messages := Some
                        [HumanMessage (uuidv4 env 0) (getMessageContentFromIssue env i)
                           (empty_kwargs\<lparr>kw_githubIssueId := Some n,
                              kw_isOriginalIssue := Some True\<rparr>)],
                      upd_taskPlan := planFromIssue env i (stateTaskPlan st)\<rparr>))))"

section \<open>The handler of issues.labeled\<close>

record payload =
  label_name :: "string option"
  installation_id :: "nat option"
  repository_owner_login :: string
  repository_name :: string
  issue_number :: nat
  payload_issue_title :: string
  payload_issue_body :: "string option"
  sender_id :: nat
  sender_login :: string

text \<open>
  What the handler reads from its surroundings: whether \<open>SECRETS_ENCRYPTION_KEY\<close> is set,
  the four labels the label getters answer, the allow-list, the GitHub app's two calls
  (the client is asked for a second time on the error path, so its answer depends on
  the index of the call), which of the two calls settles first when they run together,
  the answer to a posted comment, the app URL of a thread and the constant
  \<open>RequestSource.GITHUB_ISSUE_WEBHOOK\<close>.
\<close>

record webhook_env =
  secretsEncryptionKey :: bool
  getOpenSWELabel :: string
  getOpenSWEAutoAcceptLabel :: string
  getOpenSWEMaxLabel :: string
  getOpenSWEMaxAutoAcceptLabel :: string
  isAllowedUser :: "string \<Rightarrow> bool"
  getInstallationOctokit :: "nat \<Rightarrow> nat \<Rightarrow> error option"
  getInstallationAccessToken :: "nat \<Rightarrow> error + string"
  clientSettlesFirst :: bool
  postIssueComment :: "webhook_comment \<Rightarrow> error option"
  getOpenSweAppUrl :: "string \<Rightarrow> string option"
  GITHUB_ISSUE_WEBHOOK :: string

definition io_catch :: "'a io \<Rightarrow> (error \<Rightarrow> 'a io) \<Rightarrow> 'a io" where
  "io_catch m h =
     (case m of
        (Inl e, tr) \<Rightarrow> (case h e of (r, tr') \<Rightarrow> (r, tr @ tr'))
      | (Inr x, tr) \<Rightarrow> (Inr x, tr))"

definition call_unit :: "effect \<Rightarrow> error option \<Rightarrow> unit io" where
  "call_unit eff answer = ((case answer of None \<Rightarrow> Inr () | Some e \<Rightarrow> Inl e), [eff])"

definition validOpenSWELabels :: "webhook_env \<Rightarrow> string list" where
  "validOpenSWELabels wenv =
     [getOpenSWELabel wenv, getOpenSWEAutoAcceptLabel wenv, getOpenSWEMaxLabel wenv,
      getOpenSWEMaxAutoAcceptLabel wenv]"

definition isValidLabel :: "webhook_env \<Rightarrow> string option \<Rightarrow> bool" where
  "isValidLabel wenv l =
     (case l of None \<Rightarrow> False | Some name \<Rightarrow> name \<noteq> [] \<and> name \<in> set (validOpenSWELabels wenv))"

definition isAutoAcceptLabel :: "webhook_env \<Rightarrow> string option \<Rightarrow> bool" where
  "isAutoAcceptLabel wenv l =
     (l = Some (getOpenSWEAutoAcceptLabel wenv) \<or> l = Some (getOpenSWEMaxAutoAcceptLabel wenv))"

definition isMaxLabel :: "webhook_env \<Rightarrow> string option \<Rightarrow> bool" where
  "isMaxLabel wenv l =
     (l = Some (getOpenSWEMaxLabel wenv) \<or> l = Some (getOpenSWEMaxAutoAcceptLabel wenv))"

text \<open>\<open>Promise.all\<close> over the client and the token: both calls are issued, and the pair
  fails when either does, with the error of the call that fails; when both fail, with
  the error of the one that settles first.\<close>

definition getAuthentication :: "webhook_env \<Rightarrow> nat \<Rightarrow> string io" where
  "getAuthentication wenv inst =
     ((case getInstallationOctokit wenv 0 inst of
         None \<Rightarrow> getInstallationAccessToken wenv inst
       | Some clientError \<Rightarrow>
           (case getInstallationAccessToken wenv inst of
              Inr token \<Rightarrow> Inl clientError
            | Inl tokenError \<Rightarrow>
                Inl (if clientSettlesFirst wenv then clientError else tokenError))),
      [GetInstallationOctokit inst, GetInstallationAccessToken inst])"

definition webhookRunInput :: "webhook_env \<Rightarrow> services \<Rightarrow> payload \<Rightarrow> managerGraphUpdate" where
  "webhookRunInput wenv env p =
     empty_update\<lparr>
       upd_messages := Some
         [HumanMessage (uuidv4 env 1)
            (''**'' @ payload_issue_title p @ ''**'' @ [CHR 0x0A, CHR 0x0A] @
             (case payload_issue_body p of None \<Rightarrow> [] | Some b \<Rightarrow> b))
            (empty_kwargs\<lparr>kw_isOriginalIssue := Some True,
               kw_githubIssueId := Some (issue_number p),
               kw_requestSource := Some (GITHUB_ISSUE_WEBHOOK wenv)\<rparr>)],
       upd_githubIssueId := Some (issue_number p),
       upd_targetRepo := Some \<lparr>owner = repository_owner_login p, repo = repository_name p\<rparr>,
       upd_autoAcceptPlan := Some (isAutoAcceptLabel wenv (label_name p))\<rparr>"

definition dispatchRun :: "webhook_env \<Rightarrow> services \<Rightarrow> payload \<Rightarrow> unit io" where
  "dispatchRun wenv env p =
     (let thread_id = uuidv4 env 0;
          runPayload = ManagerInputRun (webhookRunInput wenv env p) (isMaxLabel wenv (label_name p))
      in io_bind (call (RunsCreate thread_id MANAGER_GRAPH_ID runPayload)
                    (runsCreate env thread_id MANAGER_GRAPH_ID runPayload)) (\<lambda>r.
         let note = Triggered (sender_login p)
                      (if truthy_str (getOpenSweAppUrl wenv thread_id)
                       then getOpenSweAppUrl wenv thread_id else None)
                      (run_id r) thread_id
         in call_unit (PostIssueComment (repository_owner_login p) (repository_name p)
                         (issue_number p) note)
              (postIssueComment wenv note)))"

text \<open>The \<open>try\<close> block: installation id, authentication, allow-list, run, comment.\<close>

definition processLabeled :: "webhook_env \<Rightarrow> services \<Rightarrow> payload \<Rightarrow> unit io" where
  "processLabeled wenv env p =
     (case installation_id p of
        None \<Rightarrow> ret ()
      | Some inst \<Rightarrow>
          if inst = 0 then ret ()
          else io_bind (getAuthentication wenv inst) (\<lambda>token.
                 if \<not> isAllowedUser wenv (sender_login p) then ret ()
                 else dispatchRun wenv env p))"

text \<open>The \<open>catch\<close> block: an error comment on the issue, whose own failure is swallowed.\<close>

definition reportError :: "webhook_env \<Rightarrow> payload \<Rightarrow> error \<Rightarrow> unit io" where
  "reportError wenv p e =
     io_catch
       (case installation_id p of
          None \<Rightarrow> ret ()
        | Some inst \<Rightarrow>
            if inst = 0 then ret ()
            else io_bind (call_unit (GetInstallationOctokit inst)
                            (getInstallationOctokit wenv 1 inst)) (\<lambda>u.
                   let note = Failed (case e of Error msg \<Rightarrow> msg)
                   in call_unit (PostIssueComment (repository_owner_login p) (repository_name p)
                                   (issue_number p) note)
                        (postIssueComment wenv note)))
       (\<lambda>commentError. ret ())"

definition onIssuesLabeled :: "webhook_env \<Rightarrow> services \<Rightarrow> payload \<Rightarrow> unit io" where
  "onIssuesLabeled wenv env p =
     (if \<not> secretsEncryptionKey wenv
      then throw (Error ''SECRETS_ENCRYPTION_KEY environment variable is required'')
      else if \<not> isValidLabel wenv (label_name p) then ret ()
      else io_catch (processLabeled wenv env p) (reportError wenv p))"

section \<open>Reading a trace\<close>

fun commentEffects :: "effect list \<Rightarrow> comment_request list" where
  "commentEffects [] = []"
| "commentEffects (CreateIssueComment req # es) = req # commentEffects es"
| "commentEffects (e # es) = commentEffects es"

fun modelInvocations :: "effect list \<Rightarrow> classification_request list" where
  "modelInvocations [] = []"
| "modelInvocations (InvokeModel req # es) = req # modelInvocations es"
| "modelInvocations (e # es) = modelInvocations es"

fun runsCreated :: "effect list \<Rightarrow> (string \<times> graph_id \<times> run_payload) list" where
  "runsCreated [] = []"
| "runsCreated (RunsCreate t g p # es) = (t, g, p) # runsCreated es"
| "runsCreated (e # es) = runsCreated es"

fun commentsPosted :: "effect list \<Rightarrow> webhook_comment list" where
  "commentsPosted [] = []"
| "commentsPosted (PostIssueComment ow rp n c # es) = c # commentsPosted es"
| "commentsPosted (e # es) = commentsPosted es"

text \<open>The comment id a call answered (0 when it answered none).\<close>

definition createdId :: "services \<Rightarrow> managerGraphState \<Rightarrow> nat \<Rightarrow> nat \<times> message \<Rightarrow> nat" where
  "createdId env st n km =
     (case createIssueComment env (fst km) (commentRequest st n (snd km)) of
        Inr (Some c) \<Rightarrow> c | _ \<Rightarrow> 0)"

section \<open>Concrete runs\<close>

text \<open>A conversation on ticket 7 of acme/shop with two human messages, the first one
  mirrored already, and collaborators that all answer; the planner's status and the
  router's reply are left open.\<close>

definition demo_human :: "string \<Rightarrow> string \<Rightarrow> nat option \<Rightarrow> message" where
  "demo_human i c gid = HumanMessage i c (empty_kwargs\<lparr>kw_githubIssueId := gid\<rparr>)"

definition demo_reply :: "string \<Rightarrow> message" where
  "demo_reply r = \<lparr>msg_id = Some ''reply-1'', getType = Ai, content = ''On it.'',
     kwargs = empty_kwargs,
     tool_calls = [\<lparr>route = r, response = ''On it.'', internal_reasoning = ''asked''\<rparr>]\<rparr>"

definition demo_state :: managerGraphState where
  "demo_state = \<lparr>
     messages = [demo_human ''m1'' ''Fix the login bug'' (Some 7),
                 AIMessage ''a1'' ''Planning.'',
                 demo_human ''m2'' ''Also fix the logout'' None],
     githubIssueId = Some 7,
     targetRepo = \<lparr>owner = ''acme'', repo = ''shop''\<rparr>,
     stateTaskPlan = Some \<lparr>tasks = [''in memory''], activeTaskIndex = 0\<rparr>,
     plannerSession = Some \<lparr>threadId = ''planner-1'', runId = ''run-0''\<rparr>,
     programmerSession = None,
     branchName = None,
     autoAcceptPlan = None\<rparr>"

definition demo_services :: "string \<Rightarrow> message \<Rightarrow> services" where
  "demo_services plannerStatus reply = \<lparr>
     isLocalMode = False,
     hasGithubPat = False,
     uuidv4 = (\<lambda>k. ''uuid-'' @ replicate k (CHR ''i'')),
     threadsGet = (\<lambda>t. Inr \<lparr>status = plannerStatus, programmerThreadId = None\<rparr>),
     getPlansFromIssue = (\<lambda>st. Inr (Some \<lparr>
        plansTaskPlan = Some \<lparr>tasks = [''from ticket''], activeTaskIndex = 0\<rparr>,
        proposedPlan = None\<rparr>)),
     loadModel = None,
     invokeModel = (\<lambda>req. Inr reply),
     extractContentWithoutDetailsFromIssueBody = (\<lambda>c. c),
     createIssueFieldsFromMessages = (\<lambda>ms. Inr (''Login'', ''Fix the login bug'')),
     extractIssueTitleAndContentFromMessage = (\<lambda>c. c),
     formatContentForIssueBody = (\<lambda>c. c),
     createIssue = (\<lambda>req. Inr (Some 8)),
     createIssueComment = (\<lambda>k req. Inr (Some (100 + k))),
     completionTime = (\<lambda>k. 5 - k),
     runsCreate = (\<lambda>t g p. Inr \<lparr>run_id = ''run-1'', run_status = ''pending''\<rparr>),
     regenerateInstallationToken = Inr ''token'',
     getRecentUserRequest = findLast isHumanMessage,
     getBranchName = ''open-swe/7'',
     getIssue = (\<lambda>ow rp n. Inr (Some \<lparr>issue_title = ''Login'', issue_body = Some ''plan''\<rparr>)),
     extractTasksFromIssueContent =
       (\<lambda>b. Some \<lparr>tasks = [''from ticket''], activeTaskIndex = 0\<rparr>),
     getMessageContentFromIssue = issue_title,
     issueTags = ((''<title>'', ''</title>''), (''<content>'', ''</content>''))\<rparr>"

text \<open>The conversation reduced to one human message without a tag, and the conversation
  after its second message was mirrored.\<close>

definition demo_state_single :: managerGraphState where
  "demo_state_single = demo_state\<lparr>messages := [demo_human ''m2'' ''Also fix the logout'' None]\<rparr>"

definition demo_state_mirrored :: managerGraphState where
  "demo_state_mirrored = demo_state\<lparr>messages :=
     [demo_human ''m1'' ''Fix the login bug'' (Some 7),
      AIMessage ''a1'' ''Planning.'',
      taggedCopy 7 (Some 100) ''update_planner'' (demo_human ''m2'' ''Also fix the logout'' None)]\<rparr>"

text \<open>A label event on ticket 7 from installation 55; alice is the one allowed user.\<close>

definition demo_webhook_env :: "error + string \<Rightarrow> webhook_env" where
  "demo_webhook_env tokenAnswer = \<lparr>
     secretsEncryptionKey = True,
     getOpenSWELabel = ''open-swe'',
     getOpenSWEAutoAcceptLabel = ''open-swe-auto'',
     getOpenSWEMaxLabel = ''open-swe-max'',
     getOpenSWEMaxAutoAcceptLabel = ''open-swe-max-auto'',
     isAllowedUser = (\<lambda>login. login = ''alice''),
     getInstallationOctokit = (\<lambda>k inst. None),
     getInstallationAccessToken = (\<lambda>inst. tokenAnswer),
     clientSettlesFirst = False,
     postIssueComment = (\<lambda>c. None),
     getOpenSweAppUrl = (\<lambda>t. Some (''https://swe.example/chat/'' @ t)),
     GITHUB_ISSUE_WEBHOOK = ''github_issue_webhook''\<rparr>"

definition demo_payload :: "string \<Rightarrow> string \<Rightarrow> payload" where
  "demo_payload l login = \<lparr>
     label_name = Some l,
     installation_id = Some 55,
     repository_owner_login = ''acme'',
     repository_name = ''shop'',
     issue_number = 7,
     payload_issue_title = ''Login'',
     payload_issue_body = Some ''Fix the login bug'',
     sender_id = 3,
     sender_login = login\<rparr>"

text \<open>The same conversation with two messages waiting to be mirrored.\<close>

definition demo_state_backlog :: managerGraphState where
  "demo_state_backlog = demo_state\<lparr>messages :=
     [demo_human ''m1'' ''Fix the login bug'' (Some 7),
      demo_human ''m2'' ''Also fix the logout'' None,
      demo_human ''m3'' ''And the signup'' None]\<rparr>"

section \<open>Traces of the stages\<close>

lemma io_bind_ret [simp]: "io_bind (ret x) f = f x"
  by (simp add: io_bind_def ret_def split: prod.splits)

lemma io_bind_throw [simp]: "io_bind (throw e) f = throw e"
  by (simp add: io_bind_def throw_def)

lemma snd_io_bind:
  "snd (io_bind m f) = (case fst m of Inl e \<Rightarrow> snd m | Inr x \<Rightarrow> snd m @ snd (f x))"
  by (cases m) (auto simp: io_bind_def split: sum.splits prod.splits)

lemma fst_io_bind:
  "fst (io_bind m f) = (case fst m of Inl e \<Rightarrow> Inl e | Inr x \<Rightarrow> fst (f x))"
  by (cases m) (auto simp: io_bind_def split: sum.splits prod.splits)

lemma io_bind_eq_Inr:
  "io_bind m f = (Inr y, tr) \<longleftrightarrow>
     (\<exists>x tr1 tr2. m = (Inr x, tr1) \<and> f x = (Inr y, tr2) \<and> tr = tr1 @ tr2)"
  by (cases m) (auto simp: io_bind_def split: sum.splits prod.splits)

lemma snd_ret [simp]: "snd (ret x) = []" and fst_ret [simp]: "fst (ret x) = Inr x"
  by (simp_all add: ret_def)

lemma snd_throw [simp]: "snd (throw e) = []" and fst_throw [simp]: "fst (throw e) = Inl e"
  by (simp_all add: throw_def)

lemma snd_call [simp]: "snd (call eff a) = [eff]" and fst_call [simp]: "fst (call eff a) = a"
  by (simp_all add: call_def)

lemma modelInvocations_append [simp]:
  "modelInvocations (xs @ ys) = modelInvocations xs @ modelInvocations ys"
  by (induction xs rule: modelInvocations.induct) simp_all

lemma commentEffects_append [simp]:
  "commentEffects (xs @ ys) = commentEffects xs @ commentEffects ys"
  by (induction xs rule: commentEffects.induct) simp_all

lemma runsCreated_append [simp]:
  "runsCreated (xs @ ys) = runsCreated xs @ runsCreated ys"
  by (induction xs rule: runsCreated.induct) simp_all

lemma commentsPosted_append [simp]:
  "commentsPosted (xs @ ys) = commentsPosted xs @ commentsPosted ys"
  by (induction xs rule: commentsPosted.induct) simp_all

lemma findLast_None: "findLast p xs = None \<longleftrightarrow> filter p xs = []"
  by (auto simp: findLast_def find_None_iff filter_empty_conv)

lemma findLast_Some: "filter p xs \<noteq> [] \<Longrightarrow> findLast p xs = Some (last (filter p xs))"
  unfolding findLast_def by (induction xs rule: rev_induct) auto

lemma trace_getThreadIfSet:
  "snd (getThreadIfSet env tid) = (case tid of None \<Rightarrow> [] | Some t \<Rightarrow> if t = [] then [] else [ThreadsGet t])"
  by (auto simp: getThreadIfSet_def snd_io_bind split: option.splits sum.splits)

lemma trace_fetchThreads_kinds:
  "modelInvocations (snd (fetchThreads env st)) = []"
  "commentEffects (snd (fetchThreads env st)) = []"
  "runsCreated (snd (fetchThreads env st)) = []"
  by (auto simp: fetchThreads_def snd_io_bind trace_getThreadIfSet split: option.splits sum.splits)

lemma trace_fetchIssuePlans_kinds:
  "modelInvocations (snd (fetchIssuePlans env st)) = []"
  "commentEffects (snd (fetchIssuePlans env st)) = []"
  "runsCreated (snd (fetchIssuePlans env st)) = []"
  by (auto simp: fetchIssuePlans_def split: option.splits)

lemma trace_invokeRouter:
  "snd (invokeRouter env req) = (if loadModel env = None then [InvokeModel req] else [])"
  by (auto simp: invokeRouter_def snd_io_bind split: option.splits sum.splits list.splits)

lemma trace_finalRoute [simp]: "snd (finalRoute gid ms r) = []"
  by (simp add: finalRoute_def Let_def)

lemma trace_createIssueBranch_kinds:
  "modelInvocations (snd (createIssueBranch env st um reply r)) = []"
  "commentEffects (snd (createIssueBranch env st um reply r)) = []"
  "runsCreated (snd (createIssueBranch env st um reply r)) = []"
  by (auto simp: createIssueBranch_def snd_io_bind Let_def split: option.splits sum.splits)

lemma commentEffects_map_Create [simp]:
  "commentEffects (map (\<lambda>x. CreateIssueComment (f x)) xs) = map f xs"
  by (induction xs) simp_all

lemma modelInvocations_map_Create [simp]:
  "modelInvocations (map (\<lambda>x. CreateIssueComment (f x)) xs) = []"
  by (induction xs) simp_all

lemma runsCreated_map_Create [simp]:
  "runsCreated (map (\<lambda>x. CreateIssueComment (f x)) xs) = []"
  by (induction xs) simp_all

lemma trace_createComments:
  "snd (createComments env st n r) =
     map (\<lambda>m. CreateIssueComment (commentRequest st n m)) (messagesNotInIssue st)"
proof -
  have "map (\<lambda>im. CreateIssueComment (commentRequest st n (snd im))) (enumerate 0 ms) =
        map (\<lambda>m. CreateIssueComment (commentRequest st n m)) (map snd (enumerate 0 ms))" for ms :: "message list"
    by (simp only: map_map comp_def)
  then show ?thesis by (simp add: createComments_def Let_def)
qed

lemma trace_resumePlanner:
  "snd (resumePlanner env st ps) =
     (case plannerThreadId st of
        Some tid \<Rightarrow> if ps = ''interrupted'' \<and> tid \<noteq> [] \<and> \<not> isLocalMode env
                    then [RunsCreate tid PLANNER_GRAPH_ID (ResumeRun ''response'' ''resume planner'')] else []
      | None \<Rightarrow> [])"
  by (auto simp: resumePlanner_def snd_io_bind split: option.splits sum.splits)

lemma trace_mirrorBranch:
  "snd (mirrorBranch env st n ps reply r) =
     snd (createComments env st n r) @
     (case fst (createComments env st n r) of Inl e \<Rightarrow> [] | Inr pushed \<Rightarrow> snd (resumePlanner env st ps))"
  by (auto simp: mirrorBranch_def snd_io_bind split: sum.splits)

lemma modelInvocations_routeMessage:
  "modelInvocations (snd (routeMessage env st um ps reply r)) = []"
  by (auto simp: routeMessage_def trace_createIssueBranch_kinds trace_mirrorBranch
      trace_createComments trace_resumePlanner split: option.splits sum.splits)

lemma modelInvocations_classifyFrom:
  "modelInvocations (snd (classifyFrom env st um)) =
     (case fst (fetchThreads env st) of
        Inl e \<Rightarrow> []
      | Inr threads \<Rightarrow>
          (case fst (fetchIssuePlans env st) of
             Inl e \<Rightarrow> []
           | Inr plans \<Rightarrow>
               if loadModel env = None
               then [classificationRequest env st um threads plans] else []))"
  by (auto simp: classifyFrom_def snd_io_bind trace_fetchThreads_kinds trace_fetchIssuePlans_kinds
      trace_invokeRouter modelInvocations_routeMessage split: sum.splits)

lemma classifyFrom_no_tool_call:
  assumes "fetchThreads env st = (Inr threads, tr1)"
    and "fetchIssuePlans env st = (Inr plans, tr2)"
    and "loadModel env = None"
    and "invokeModel env (classificationRequest env st um threads plans) = Inr reply"
    and "tool_calls reply = []"
  shows "classifyFrom env st um =
    (Inl (Error ''No tool call found.''),
     tr1 @ tr2 @ [InvokeModel (classificationRequest env st um threads plans)])"
  using assms
  by (simp add: classifyFrom_def io_bind_def invokeRouter_def call_def throw_def)

lemma fst_fetchIssuePlans:
  "fst (fetchIssuePlans env st) =
     (if truthy_num (githubIssueId st) then getPlansFromIssue env st else Inr None)"
  by (auto simp: fetchIssuePlans_def truthy_num_def split: option.splits)

lemma modelInvocations_classifyMessage_taskPlan:
  assumes "req \<in> set (modelInvocations (snd (classifyMessage env st)))"
  shows "\<exists>plans. fst (fetchIssuePlans env st) = Inr plans \<and>
           req_taskPlan req = classificationTaskPlan plans st"
proof -
  from assms obtain um where
    "req \<in> set (modelInvocations (snd (classifyFrom env st um)))"
    by (auto simp: classifyMessage_def split: option.splits)
  then show ?thesis
    unfolding modelInvocations_classifyFrom
    by (cases "fst (fetchThreads env st)"; cases "fst (fetchIssuePlans env st)")
       (auto simp: classificationRequest_def split: if_splits)
qed

lemmas io_defs = io_bind_def ret_def throw_def call_def

lemmas message_defs = isHumanMessage_def truthy_num_def truthy_str_def findLast_def
  HumanMessage_def HumanMessage_copy_def AIMessage_def RemoveMessage_def empty_kwargs_def
  empty_update_def mkCommand_def replyOnly_def

lemmas classify_defs = classifyMessage_def classifyFrom_def fetchThreads_def
  getThreadIfSet_def plannerThreadId_def fetchIssuePlans_def classificationRequest_def
  classificationTaskPlan_def statusOf_def invokeRouter_def routeMessage_def
  mirrorBranch_def createComments_def commentOutcome_def completionOrder_def
  messagesNotInIssue_def commentRequest_def taggedCopy_def resumePlanner_def
  mirrorUpdate_def finalRoute_def createIssueBranch_def

lemmas demo_defs = demo_human_def demo_reply_def demo_state_def demo_services_def

section \<open>Passes that return\<close>

lemma io_bind_call_Inr:
  "io_bind (call eff a) f = (Inr y, tr) \<longleftrightarrow>
     (\<exists>x tr2. a = Inr x \<and> f x = (Inr y, tr2) \<and> tr = eff # tr2)"
  by (auto simp: io_bind_eq_Inr call_def)

lemma ret_eq_Inr [simp]: "ret x = (Inr y, tr) \<longleftrightarrow> x = y \<and> tr = []"
  by (auto simp: ret_def)

lemma throw_neq_Inr [simp]: "throw e \<noteq> (Inr y, tr)"
  by (simp add: throw_def)

lemma invokeRouter_Inr:
  assumes "invokeRouter env req = (Inr cl, tr)"
  shows "loadModel env = None \<and> invokeModel env req = Inr (fst cl) \<and>
     (\<exists>tcs. tool_calls (fst cl) = snd cl # tcs) \<and> tr = [InvokeModel req]"
proof (cases "loadModel env")
  case (Some e)
  with assms show ?thesis by (simp add: invokeRouter_def throw_def)
next
  case None
  show ?thesis
  proof (cases "invokeModel env req")
    case (Inl e)
    with None assms show ?thesis by (simp add: invokeRouter_def io_bind_def call_def)
  next
    case (Inr reply)
    with None assms show ?thesis
      by (cases "tool_calls reply")
         (auto simp: invokeRouter_def io_bind_def call_def throw_def ret_def)
  qed
qed

lemma classifyMessage_Inr:
  assumes "classifyMessage env st = (Inr cmd, tr)"
  obtains um threads tr1 plans tr2 reply tc tcs tr4 where
    "findLast isHumanMessage (messages st) = Some um"
    "fetchThreads env st = (Inr threads, tr1)"
    "fetchIssuePlans env st = (Inr plans, tr2)"
    "loadModel env = None"
    "invokeModel env (classificationRequest env st um threads plans) = Inr reply"
    "tool_calls reply = tc # tcs"
    "routeMessage env st um (statusOf (fst threads)) reply (route tc) = (Inr cmd, tr4)"
    "tr = tr1 @ tr2 @ InvokeModel (classificationRequest env st um threads plans) # tr4"
proof -
  from assms obtain um where um: "findLast isHumanMessage (messages st) = Some um"
    and cf: "classifyFrom env st um = (Inr cmd, tr)"
    by (auto simp: classifyMessage_def split: option.splits)
  from cf obtain threads tr1 plans tr2 cl tr3 tr4 where
    a: "fetchThreads env st = (Inr threads, tr1)"
    and b: "fetchIssuePlans env st = (Inr plans, tr2)"
    and c: "invokeRouter env (classificationRequest env st um threads plans) = (Inr cl, tr3)"
    and d: "routeMessage env st um (statusOf (fst threads)) (fst cl) (route (snd cl)) = (Inr cmd, tr4)"
    and e: "tr = tr1 @ tr2 @ tr3 @ tr4"
    unfolding classifyFrom_def io_bind_eq_Inr by auto
  from c obtain tcs where "loadModel env = None"
    "invokeModel env (classificationRequest env st um threads plans) = Inr (fst cl)"
    "tool_calls (fst cl) = snd cl # tcs"
    "tr3 = [InvokeModel (classificationRequest env st um threads plans)]"
    using invokeRouter_Inr by blast
  with um a b d e show thesis
    by (intro that [of um threads tr1 plans tr2 "fst cl" "snd cl" tcs tr4]) simp_all
qed

lemma finalRoute_Inr:
  assumes "finalRoute gid ms r = (Inr cmd, tr)"
  shows "tr = [] \<and> upd_messages (cmd_update cmd) = Some ms \<and>
     upd_plannerSession (cmd_update cmd) = None \<and>
     (r = ''resume_and_update_planner'' \<longrightarrow> cmd_goto cmd = END)"
proof -
  let ?u = "empty_update\<lparr>upd_messages := Some ms,
            upd_githubIssueId := (if truthy_num gid then gid else None)\<rparr>"
  from assms have "cmd = mkCommand ?u END \<or> cmd = mkCommand ?u (Node ''start-planner'')"
    and "tr = []"
    and "r = ''resume_and_update_planner'' \<longrightarrow> cmd = mkCommand ?u END"
    unfolding finalRoute_def Let_def ret_def throw_def
    by (simp_all split: if_splits)
  then show ?thesis
    by (auto simp: mkCommand_def empty_update_def)
qed

lemma createIssueBranch_Inr:
  assumes "createIssueBranch env st um reply r = (Inr cmd, tr)"
  shows "(\<exists>rest. upd_messages (cmd_update cmd) = Some (reply # rest)) \<and>
     upd_plannerSession (cmd_update cmd) = None \<and>
     (r = ''resume_and_update_planner'' \<longrightarrow> cmd_goto cmd = END)"
proof -
  from assms obtain gid ms tr' where "finalRoute gid (reply # ms) r = (Inr cmd, tr')"
    unfolding createIssueBranch_def Let_def io_bind_call_Inr
    by (auto split: option.splits)
  from finalRoute_Inr [OF this] show ?thesis by simp
qed

lemma mirrorBranch_Inr:
  assumes "mirrorBranch env st n ps reply r = (Inr cmd, tr)"
  obtains pushed tr1 newPlannerId tr2 where
    "createComments env st n r = (Inr pushed, tr1)"
    "resumePlanner env st ps = (Inr newPlannerId, tr2)"
    "cmd = mkCommand (mirrorUpdate st (reply # pushed) newPlannerId)
             (if r = ''start_planner_for_followup'' then Node ''start-planner'' else END)"
    "tr = tr1 @ tr2"
proof -
  from assms obtain pushed tr1 tr' where a: "createComments env st n r = (Inr pushed, tr1)"
    and b: "io_bind (resumePlanner env st ps) (\<lambda>newPlannerId.
       ret (mkCommand (mirrorUpdate st (reply # pushed) newPlannerId)
              (if r = ''start_planner_for_followup'' then Node ''start-planner'' else END))) =
       (Inr cmd, tr')"
    and c: "tr = tr1 @ tr'"
    unfolding mirrorBranch_def by (subst (asm) io_bind_eq_Inr) blast
  from b obtain newPlannerId tr2 tr3 where d: "resumePlanner env st ps = (Inr newPlannerId, tr2)"
    and e: "ret (mkCommand (mirrorUpdate st (reply # pushed) newPlannerId)
              (if r = ''start_planner_for_followup'' then Node ''start-planner'' else END)) =
       (Inr cmd, tr3)"
    and f: "tr' = tr2 @ tr3"
    by (subst (asm) io_bind_eq_Inr) blast
  from e have "cmd = mkCommand (mirrorUpdate st (reply # pushed) newPlannerId)
              (if r = ''start_planner_for_followup'' then Node ''start-planner'' else END)"
    and "tr3 = []"
    by (simp_all add: ret_def)
  with a d c f show thesis
    by (intro that [of pushed tr1 newPlannerId tr2]) simp_all
qed

lemma mirrorBranch_reply_head:
  assumes "mirrorBranch env st n ps reply r = (Inr cmd, tr)"
  shows "\<exists>rest. upd_messages (cmd_update cmd) = Some (reply # rest)"
  using assms
  by (rule mirrorBranch_Inr) (simp add: mkCommand_def mirrorUpdate_def empty_update_def)

lemma routeMessage_cases:
  assumes "routeMessage env st um ps reply r = (Inr cmd, tr)"
  obtains
    (early) "r = ''no_op'' \<or> r = ''create_new_issue'' \<or> isLocalMode env"
      "cmd_update cmd = replyOnly reply" "tr = []"
  | (create) "r \<noteq> ''no_op''" "r \<noteq> ''create_new_issue''" "\<not> isLocalMode env"
      "\<not> truthy_num (githubIssueId st)"
      "createIssueBranch env st um reply r = (Inr cmd, tr)"
  | (mirror) n where "r \<noteq> ''no_op''" "r \<noteq> ''create_new_issue''" "\<not> isLocalMode env"
      "githubIssueId st = Some n" "n \<noteq> 0"
      "1 < length (filter isHumanMessage (messages st))"
      "mirrorBranch env st n ps reply r = (Inr cmd, tr)"
  | (final) n where "r \<noteq> ''no_op''" "r \<noteq> ''create_new_issue''" "\<not> isLocalMode env"
      "githubIssueId st = Some n" "n \<noteq> 0"
      "\<not> 1 < length (filter isHumanMessage (messages st))"
      "finalRoute (Some n) [reply] r = (Inr cmd, tr)"
proof (cases "r = ''no_op'' \<or> r = ''create_new_issue'' \<or> isLocalMode env")
  case True
  have "cmd_update cmd = replyOnly reply \<and> tr = []"
  proof (cases "r = ''no_op''")
    case a: True
    with assms show ?thesis by (auto simp: routeMessage_def mkCommand_def ret_def)
  next
    case a: False
    show ?thesis
    proof (cases "r = ''create_new_issue''")
      case b: True
      with a assms show ?thesis by (auto simp: routeMessage_def mkCommand_def ret_def)
    next
      case b: False
      with a True have l: "isLocalMode env" by simp
      show ?thesis
      proof (cases "r = ''start_planner'' \<or> r = ''start_planner_for_followup''")
        case c: True
        from assms have "ret (mkCommand (replyOnly reply) (Node ''start-planner'')) = (Inr cmd, tr)"
          unfolding routeMessage_def if_not_P [OF a] if_not_P [OF b] if_P [OF l] if_P [OF c] .
        then show ?thesis by (auto simp: mkCommand_def ret_def)
      next
        case c: False
        from assms have "throw (Error (''Unsupported route for local mode received: '' @ r)) =
            (Inr cmd, tr)"
          unfolding routeMessage_def if_not_P [OF a] if_not_P [OF b] if_P [OF l] if_not_P [OF c] .
        then show ?thesis by (simp add: throw_def)
      qed
    qed
  qed
  with True show thesis by (intro early) simp_all
next
  case False
  show thesis
  proof (cases "githubIssueId st")
    case None
    with False assms show thesis
      by (intro create) (simp_all add: routeMessage_def truthy_num_def)
  next
    case (Some n)
    show thesis
    proof (cases "n = 0")
      case True
      with Some False assms show thesis
        by (intro create) (simp_all add: routeMessage_def truthy_num_def)
    next
      case nz: False
      show thesis
      proof (cases "1 < length (filter isHumanMessage (messages st))")
        case True
        with nz Some False assms show thesis
          by (intro mirror [of n]) (simp_all add: routeMessage_def)
      next
        case few: False
        with nz Some False assms show thesis
          by (intro final [of n]) (simp_all add: routeMessage_def)
      qed
    qed
  qed
qed

lemma routeMessage_reply_head:
  assumes "routeMessage env st um ps reply r = (Inr cmd, tr)"
  shows "\<exists>rest. upd_messages (cmd_update cmd) = Some (reply # rest)"
  using assms
proof (cases rule: routeMessage_cases)
  case early
  then show ?thesis by (simp add: replyOnly_def empty_update_def)
next
  case create
  then show ?thesis by (auto dest: createIssueBranch_Inr)
next
  case (mirror n)
  then show ?thesis by (auto dest: mirrorBranch_reply_head)
next
  case (final n)
  then show ?thesis by (auto dest: finalRoute_Inr)
qed

lemma classifyMessage_route:
  assumes "classifyMessage env st = (Inr cmd, tr)"
    and "upd_messages (cmd_update cmd) = Some (reply # pushed)"
  obtains um threads tr1 plans tr2 tr4 where
    "findLast isHumanMessage (messages st) = Some um"
    "fetchThreads env st = (Inr threads, tr1)"
    "fetchIssuePlans env st = (Inr plans, tr2)"
    "\<forall>tc tcs. tool_calls reply = tc # tcs \<longrightarrow>
       routeMessage env st um (statusOf (fst threads)) reply (route tc) = (Inr cmd, tr4)"
    "tr = tr1 @ tr2 @ InvokeModel (classificationRequest env st um threads plans) # tr4"
proof -
  from assms(1) obtain um threads tr1 plans tr2 reply' tc' tcs' tr4 where
    a: "findLast isHumanMessage (messages st) = Some um"
    "fetchThreads env st = (Inr threads, tr1)"
    "fetchIssuePlans env st = (Inr plans, tr2)"
    and b: "tool_calls reply' = tc' # tcs'"
    and c: "routeMessage env st um (statusOf (fst threads)) reply' (route tc') = (Inr cmd, tr4)"
    and d: "tr = tr1 @ tr2 @ InvokeModel (classificationRequest env st um threads plans) # tr4"
    by (rule classifyMessage_Inr)
  from routeMessage_reply_head [OF c] assms(2) have "reply' = reply" by auto
  with a b c d show thesis
    by (intro that [of um threads tr1 plans tr2 tr4]) auto
qed

lemma collect_map_Inr:
  "collect (map f xs) = Inr ys \<Longrightarrow>
     (\<forall>x \<in> set xs. \<exists>zs. f x = Inr zs) \<and>
     ys = concat (map (\<lambda>x. case f x of Inr zs \<Rightarrow> zs | Inl e \<Rightarrow> []) xs)"
proof (induction xs arbitrary: ys)
  case Nil
  then show ?case by simp
next
  case (Cons x xs)
  show ?case
  proof (cases "f x")
    case (Inl e)
    with Cons.prems show ?thesis by simp
  next
    case (Inr zs)
    with Cons.prems obtain ys' where "collect (map f xs) = Inr ys'" "ys = zs @ ys'"
      by (auto split: sum.splits)
    with Cons.IH [of ys'] Inr show ?thesis by simp
  qed
qed

lemma commentOutcome_Inr:
  assumes "commentOutcome env st n r km = Inr zs"
  shows "\<exists>c. createIssueComment env (fst km) (commentRequest st n (snd km)) = Inr (Some c) \<and>
           c \<noteq> 0 \<and>
           zs = [RemoveMessage (case msg_id (snd km) of None \<Rightarrow> [] | Some i \<Rightarrow> i),
                 taggedCopy n (Some c) r (snd km)]"
  using assms
  by (auto simp: commentOutcome_def truthy_num_def split: sum.splits option.splits if_splits)

lemma zip_snd_map: "zip (map snd xs) (map f xs) = map (\<lambda>x. (snd x, f x)) xs"
  by (induction xs) simp_all

lemma createComments_Inr:
  assumes "createComments env st n r = (Inr pushed, tr)"
  shows "tr = map (\<lambda>m. CreateIssueComment (commentRequest st n m)) (messagesNotInIssue st) \<and>
    (\<exists>ids. length ids = length (messagesNotInIssue st) \<and>
       (\<forall>k < length (messagesNotInIssue st).
          createIssueComment env k (commentRequest st n (messagesNotInIssue st ! k)) =
            Inr (Some (ids ! k)) \<and> ids ! k \<noteq> 0) \<and>
       (\<exists>ps. mset ps = mset (zip (messagesNotInIssue st) ids) \<and>
          pushed = concat (map (\<lambda>mc.
            [RemoveMessage (case msg_id (fst mc) of None \<Rightarrow> [] | Some i \<Rightarrow> i),
             taggedCopy n (Some (snd mc)) r (fst mc)]) ps)))"
proof -
  let ?ms = "messagesNotInIssue st"
  let ?kms = "enumerate 0 ?ms"
  let ?done = "completionOrder env ?kms"
  let ?ids = "map (createdId env st n) ?kms"
  let ?ps = "map (\<lambda>km. (snd km, createdId env st n km)) ?done"
  let ?pair = "\<lambda>mc. [RemoveMessage (case msg_id (fst mc) of None \<Rightarrow> [] | Some i \<Rightarrow> i),
             taggedCopy n (Some (snd mc)) r (fst mc)]"
  from assms have tr: "tr = map (\<lambda>m. CreateIssueComment (commentRequest st n m)) ?ms"
    using trace_createComments [of env st n r] by simp
  from assms have c: "collect (map (commentOutcome env st n r) ?done) = Inr pushed"
    by (simp add: createComments_def Let_def)
  note cm = collect_map_Inr [OF c]
  have setdone: "set ?done = set ?kms"
    by (simp add: completionOrder_def)
  have each: "\<exists>c. createIssueComment env (fst km) (commentRequest st n (snd km)) = Inr (Some c) \<and>
           c \<noteq> 0 \<and> commentOutcome env st n r km = Inr (?pair (snd km, c))"
    if "km \<in> set ?kms" for km
  proof -
    from that setdone cm obtain zs where "commentOutcome env st n r km = Inr zs" by blast
    from commentOutcome_Inr [OF this] this show ?thesis by auto
  qed
  have ok: "createIssueComment env (fst km) (commentRequest st n (snd km)) =
        Inr (Some (createdId env st n km)) \<and> createdId env st n km \<noteq> 0 \<and>
        commentOutcome env st n r km = Inr (?pair (snd km, createdId env st n km))"
    if "km \<in> set ?kms" for km
    using each [OF that] by (auto simp: createdId_def)
  have 1: "length ?ids = length ?ms" by simp
  have 2: "createIssueComment env k (commentRequest st n (?ms ! k)) = Inr (Some (?ids ! k)) \<and>
      ?ids ! k \<noteq> 0" if "k < length ?ms" for k
  proof -
    from that have "(k, ?ms ! k) \<in> set ?kms"
      by (simp add: in_set_enumerate_eq)
    from ok [OF this] that show ?thesis
      by (simp add: nth_enumerate_eq)
  qed
  have "zip ?ms ?ids = map (\<lambda>km. (snd km, createdId env st n km)) ?kms"
    using zip_snd_map [of ?kms "createdId env st n"] by simp
  then have 3: "mset ?ps = mset (zip ?ms ?ids)"
    by (simp add: completionOrder_def)
  have "(case commentOutcome env st n r km of Inr zs \<Rightarrow> zs | Inl e \<Rightarrow> []) =
      ?pair (snd km, createdId env st n km)" if "km \<in> set ?done" for km
    using ok [of km] that setdone by simp
  then have "map (\<lambda>km. case commentOutcome env st n r km of Inr zs \<Rightarrow> zs | Inl e \<Rightarrow> []) ?done =
      map (\<lambda>km. ?pair (snd km, createdId env st n km)) ?done"
    by (intro map_cong) simp_all
  with cm have 4: "pushed = concat (map ?pair ?ps)"
    by (simp add: comp_def)
  from 1 2 3 4 tr show ?thesis by blast
qed

lemma commentEffects_routeMessage:
  "commentEffects (snd (routeMessage env st um ps reply r)) =
     (case githubIssueId st of
        None \<Rightarrow> []
      | Some n \<Rightarrow>
          if r \<noteq> ''no_op'' \<and> r \<noteq> ''create_new_issue'' \<and> \<not> isLocalMode env \<and> n \<noteq> 0 \<and>
             1 < length (filter isHumanMessage (messages st))
          then map (commentRequest st n) (messagesNotInIssue st) else [])"
  by (auto simp: routeMessage_def trace_createIssueBranch_kinds trace_mirrorBranch
      trace_createComments trace_resumePlanner comp_def split: option.splits sum.splits)

lemma commentEffects_classifyFrom:
  "commentEffects (snd (classifyFrom env st um)) = [] \<or>
   (\<exists>n. githubIssueId st = Some n \<and> n \<noteq> 0 \<and>
        1 < length (filter isHumanMessage (messages st)) \<and>
        commentEffects (snd (classifyFrom env st um)) =
          map (commentRequest st n) (messagesNotInIssue st))"
  by (auto simp: classifyFrom_def snd_io_bind trace_fetchThreads_kinds trace_fetchIssuePlans_kinds
      trace_invokeRouter commentEffects_routeMessage split: sum.splits option.splits)

lemma commentEffects_classifyMessage:
  "commentEffects (snd (classifyMessage env st)) = [] \<or>
   (\<exists>n. githubIssueId st = Some n \<and> n \<noteq> 0 \<and>
        1 < length (filter isHumanMessage (messages st)) \<and>
        commentEffects (snd (classifyMessage env st)) =
          map (commentRequest st n) (messagesNotInIssue st))"
  using commentEffects_classifyFrom [of env st]
  by (cases "findLast isHumanMessage (messages st)") (simp_all add: classifyMessage_def)

lemma taggedCopy_tagged:
  "n \<noteq> 0 \<Longrightarrow> truthy_num (kw_githubIssueId (kwargs (taggedCopy n c r m)))"
  by (simp add: taggedCopy_def HumanMessage_copy_def truthy_num_def)

lemma trace_kinds_fetch:
  assumes "fetchThreads env st = (Inr threads, tr1)" "fetchIssuePlans env st = (Inr plans, tr2)"
  shows "commentEffects (tr1 @ tr2 @ [InvokeModel req]) = []"
    and "runsCreated (tr1 @ tr2 @ [InvokeModel req]) = []"
proof -
  from assms have "tr1 = snd (fetchThreads env st)" "tr2 = snd (fetchIssuePlans env st)"
    by simp_all
  then show "commentEffects (tr1 @ tr2 @ [InvokeModel req]) = []"
    and "runsCreated (tr1 @ tr2 @ [InvokeModel req]) = []"
    by (simp_all add: trace_fetchThreads_kinds trace_fetchIssuePlans_kinds)
qed

lemma classifyMessage_mirrored:
  assumes "classifyMessage env st = (Inr cmd, tr)"
    and "upd_messages (cmd_update cmd) = Some (reply # pushed)"
    and "tool_calls reply = tc # tcs"
    and "route tc \<noteq> ''no_op''" "route tc \<noteq> ''create_new_issue''"
    and "\<not> isLocalMode env"
    and "githubIssueId st = Some n" "n \<noteq> 0"
    and "1 < length (filter isHumanMessage (messages st))"
  obtains threads tr0 tr1 newPlannerId tr2 where
    "fst (fetchThreads env st) = Inr threads"
    "commentEffects tr0 = []" "runsCreated tr0 = []"
    "createComments env st n (route tc) = (Inr pushed, tr1)"
    "resumePlanner env st (statusOf (fst threads)) = (Inr newPlannerId, tr2)"
    "cmd = mkCommand (mirrorUpdate st (reply # pushed) newPlannerId)
             (if route tc = ''start_planner_for_followup'' then Node ''start-planner'' else END)"
    "tr = tr0 @ tr1 @ tr2"
proof -
  from assms(1,2) obtain um threads t1 plans t2 t4 where
    a: "fetchThreads env st = (Inr threads, t1)" "fetchIssuePlans env st = (Inr plans, t2)"
    and b: "\<forall>tc tcs. tool_calls reply = tc # tcs \<longrightarrow>
       routeMessage env st um (statusOf (fst threads)) reply (route tc) = (Inr cmd, t4)"
    and c: "tr = t1 @ t2 @ InvokeModel (classificationRequest env st um threads plans) # t4"
    by (rule classifyMessage_route)
  from b assms(3) have
    r: "routeMessage env st um (statusOf (fst threads)) reply (route tc) = (Inr cmd, t4)"
    by blast
  from r have m: "mirrorBranch env st n (statusOf (fst threads)) reply (route tc) = (Inr cmd, t4)"
  proof (cases rule: routeMessage_cases)
    case early
    with assms show ?thesis by simp
  next
    case create
    with assms show ?thesis by (simp add: truthy_num_def)
  next
    case (mirror k)
    with assms show ?thesis by simp
  next
    case (final k)
    with assms show ?thesis by simp
  qed
  from m obtain pushed' tr1 newPlannerId tr2 where
    d: "createComments env st n (route tc) = (Inr pushed', tr1)"
    "resumePlanner env st (statusOf (fst threads)) = (Inr newPlannerId, tr2)"
    "cmd = mkCommand (mirrorUpdate st (reply # pushed') newPlannerId)
             (if route tc = ''start_planner_for_followup'' then Node ''start-planner'' else END)"
    "t4 = tr1 @ tr2"
    by (rule mirrorBranch_Inr)
  from d(3) assms(2) have "pushed' = pushed"
    by (simp add: mkCommand_def mirrorUpdate_def empty_update_def)
  with a c d trace_kinds_fetch [OF a, of "classificationRequest env st um threads plans"]
  show thesis
    by (intro that [of threads
          "t1 @ t2 @ [InvokeModel (classificationRequest env st um threads plans)]"
          tr1 newPlannerId tr2]) simp_all
qed

lemma commentEffects_resumePlanner [simp]:
  "commentEffects (snd (resumePlanner env st ps)) = []"
  by (simp add: trace_resumePlanner split: option.splits)

lemma getThreadIfSet_Inr:
  assumes "getThreadIfSet env tid = (Inr th, tr)"
  shows "th = None \<and> (tid = None \<or> tid = Some []) \<or>
         (\<exists>t x. tid = Some t \<and> t \<noteq> [] \<and> threadsGet env t = Inr x \<and> th = Some x)"
proof (cases tid)
  case None
  with assms show ?thesis by (simp add: getThreadIfSet_def)
next
  case (Some t)
  show ?thesis
  proof (cases "t = []")
    case True
    with Some assms show ?thesis by (simp add: getThreadIfSet_def)
  next
    case False
    with Some assms show ?thesis
      by (cases "threadsGet env t") (auto simp: getThreadIfSet_def io_bind_def call_def ret_def)
  qed
qed

lemma fetchThreads_planner:
  assumes "fst (fetchThreads env st) = Inr threads"
  shows "(fst threads = None \<and>
            (isLocalMode env \<or> plannerThreadId st = None \<or> plannerThreadId st = Some []))
         \<or> (\<not> isLocalMode env \<and>
             (\<exists>t x. plannerThreadId st = Some t \<and> t \<noteq> [] \<and> threadsGet env t = Inr x \<and>
                    fst threads = Some x))"
proof (cases "isLocalMode env")
  case True
  with assms show ?thesis by (auto simp: fetchThreads_def)
next
  case False
  obtain r tr where ft: "fetchThreads env st = (r, tr)" by (cases "fetchThreads env st")
  with assms have "fetchThreads env st = (Inr threads, tr)" by simp
  with False obtain pt tr1 where "getThreadIfSet env (plannerThreadId st) = (Inr pt, tr1)"
    and "fst threads = pt"
    unfolding fetchThreads_def
    by (auto simp: io_bind_eq_Inr)
  with getThreadIfSet_Inr [of env "plannerThreadId st" pt tr1] False show ?thesis
    by auto
qed

lemma interrupted_planner:
  assumes "fst (fetchThreads env st) = Inr threads"
    and "statusOf (fst threads) = ''interrupted''"
  shows "\<not> isLocalMode env \<and>
     (\<exists>ps th. plannerSession st = Some ps \<and> threadId ps \<noteq> [] \<and>
        threadsGet env (threadId ps) = Inr th \<and> status th = ''interrupted'')"
proof -
  from assms(2) have "fst threads \<noteq> None"
    by (cases "fst threads") (simp_all add: statusOf_def)
  with fetchThreads_planner [OF assms(1)] assms(2) show ?thesis
    by (auto simp: statusOf_def plannerThreadId_def)
qed

lemma planner_status:
  assumes "fst (fetchThreads env st) = Inr threads"
    and "\<not> isLocalMode env" and "plannerSession st = Some ps" and "threadId ps \<noteq> []"
    and "threadsGet env (threadId ps) = Inr th"
  shows "statusOf (fst threads) = status th"
  using fetchThreads_planner [OF assms(1)] assms(2-)
  by (auto simp: statusOf_def plannerThreadId_def)

lemma resumePlanner_interrupted:
  assumes "resumePlanner env st ''interrupted'' = (Inr newPlannerId, tr)"
    and "plannerSession st = Some ps"
  shows "\<exists>rn. runsCreate env (threadId ps) PLANNER_GRAPH_ID
                (ResumeRun ''response'' ''resume planner'') = Inr rn \<and>
              newPlannerId = Some (run_id rn) \<and>
              tr = [RunsCreate (threadId ps) PLANNER_GRAPH_ID
                      (ResumeRun ''response'' ''resume planner'')]"
proof -
  from assms have tid: "threadId ps \<noteq> []" and loc: "\<not> isLocalMode env"
    by (auto simp: resumePlanner_def plannerThreadId_def throw_def split: if_splits)
  with assms show ?thesis
    by (cases "runsCreate env (threadId ps) PLANNER_GRAPH_ID
                (ResumeRun ''response'' ''resume planner'')")
       (auto simp: resumePlanner_def plannerThreadId_def io_bind_def call_def ret_def)
qed

lemma runsCreated_routeMessage:
  "runsCreated (snd (routeMessage env st um ps reply r)) = [] \<or>
   (ps = ''interrupted'' \<and> \<not> isLocalMode env \<and>
    (\<exists>tid. plannerThreadId st = Some tid \<and> tid \<noteq> [] \<and>
       runsCreated (snd (routeMessage env st um ps reply r)) =
         [(tid, PLANNER_GRAPH_ID, ResumeRun ''response'' ''resume planner'')]))"
  by (auto simp: routeMessage_def trace_createIssueBranch_kinds trace_mirrorBranch
      trace_createComments trace_resumePlanner split: option.splits sum.splits)

lemma runsCreated_classifyFrom:
  "runsCreated (snd (classifyFrom env st um)) = [] \<or>
   (\<exists>threads tid. fst (fetchThreads env st) = Inr threads \<and>
      statusOf (fst threads) = ''interrupted'' \<and> plannerThreadId st = Some tid \<and>
      runsCreated (snd (classifyFrom env st um)) =
        [(tid, PLANNER_GRAPH_ID, ResumeRun ''response'' ''resume planner'')])"
proof (cases "fst (fetchThreads env st)")
  case (Inl e)
  then show ?thesis
    by (simp add: classifyFrom_def snd_io_bind trace_fetchThreads_kinds)
next
  case threads: (Inr threads)
  show ?thesis
  proof (cases "fst (fetchIssuePlans env st)")
    case (Inl e)
    with threads show ?thesis
      by (simp add: classifyFrom_def snd_io_bind trace_fetchThreads_kinds
          trace_fetchIssuePlans_kinds)
  next
    case plans: (Inr plans)
    show ?thesis
    proof (cases "fst (invokeRouter env (classificationRequest env st um threads plans))")
      case (Inl e)
      with threads plans show ?thesis
        by (simp add: classifyFrom_def snd_io_bind trace_fetchThreads_kinds
            trace_fetchIssuePlans_kinds trace_invokeRouter)
    next
      case (Inr cl)
      with threads plans have
        "runsCreated (snd (classifyFrom env st um)) =
         runsCreated (snd (routeMessage env st um (statusOf (fst threads)) (fst cl) (route (snd cl))))"
        by (simp add: classifyFrom_def snd_io_bind trace_fetchThreads_kinds
            trace_fetchIssuePlans_kinds trace_invokeRouter)
      with threads
        runsCreated_routeMessage [of env st um "statusOf (fst threads)" "fst cl" "route (snd cl)"]
      show ?thesis by auto
    qed
  qed
qed

lemma runsCreated_classifyMessage:
  assumes "x \<in> set (runsCreated (snd (classifyMessage env st)))"
  shows "\<not> isLocalMode env \<and>
     (\<exists>ps th. plannerSession st = Some ps \<and> threadId ps \<noteq> [] \<and>
        threadsGet env (threadId ps) = Inr th \<and> status th = ''interrupted'' \<and>
        x = (threadId ps, PLANNER_GRAPH_ID, ResumeRun ''response'' ''resume planner''))"
proof -
  from assms obtain um where "x \<in> set (runsCreated (snd (classifyFrom env st um)))"
    by (auto simp: classifyMessage_def split: option.splits)
  with runsCreated_classifyFrom [of env st um] obtain threads tid where
    a: "fst (fetchThreads env st) = Inr threads" "statusOf (fst threads) = ''interrupted''"
    and b: "plannerThreadId st = Some tid"
    and c: "x = (tid, PLANNER_GRAPH_ID, ResumeRun ''response'' ''resume planner'')"
    by auto
  from interrupted_planner [OF a] b c show ?thesis
    by (auto simp: plannerThreadId_def)
qed

lemma routeMessage_resume_goto:
  assumes "routeMessage env st um ps reply ''resume_and_update_planner'' = (Inr cmd, tr)"
  shows "cmd_goto cmd = END"
  using assms
proof (cases rule: routeMessage_cases)
  case early
  then have l: "isLocalMode env" by simp
  have "routeMessage env st um ps reply ''resume_and_update_planner'' =
      throw (Error (''Unsupported route for local mode received: '' @ ''resume_and_update_planner''))"
    using l by (simp add: routeMessage_def)
  with assms show ?thesis by (simp add: throw_def)
next
  case create
  then show ?thesis by (auto dest: createIssueBranch_Inr)
next
  case (mirror n)
  from mirror(7) show ?thesis
    by (rule mirrorBranch_Inr) (simp add: mkCommand_def)
next
  case (final n)
  then show ?thesis by (auto dest: finalRoute_Inr)
qed

lemma trace_refreshToken:
  "runsCreated (snd (refreshToken env)) = []"
  by (auto simp: refreshToken_def snd_io_bind split: sum.splits)

lemma runsCreated_startPlanner:
  "runsCreated (snd (startPlanner env st)) = [] \<or>
   runsCreated (snd (startPlanner env st)) =
     [(plannerThreadOf env st, PLANNER_GRAPH_ID, PlannerRun (plannerRunInput env st))]"
  by (auto simp: startPlanner_def snd_io_bind trace_refreshToken split: sum.splits)

lemma startPlanner_Inr:
  assumes "startPlanner env st = (Inr upd, tr)"
  shows "\<exists>rn. runsCreate env (plannerThreadOf env st) PLANNER_GRAPH_ID
                 (PlannerRun (plannerRunInput env st)) = Inr rn \<and>
              upd = empty_update\<lparr>upd_plannerSession :=
                      Some \<lparr>threadId = plannerThreadOf env st, runId = run_id rn\<rparr>\<rparr>"
proof -
  from assms obtain u tr1 tr2 where
    "io_bind (call (RunsCreate (plannerThreadOf env st) PLANNER_GRAPH_ID
                (PlannerRun (plannerRunInput env st)))
             (runsCreate env (plannerThreadOf env st) PLANNER_GRAPH_ID
                (PlannerRun (plannerRunInput env st))))
       (\<lambda>r. ret (empty_update\<lparr>upd_plannerSession :=
                Some \<lparr>threadId = plannerThreadOf env st, runId = run_id r\<rparr>\<rparr>)) = (Inr upd, tr2)"
    unfolding startPlanner_def
    by (subst (asm) io_bind_eq_Inr) blast
  then show ?thesis
    unfolding io_bind_call_Inr by auto
qed

lemma classifyMessage_session:
  assumes "classifyMessage env st = (Inr cmd, tr)"
  shows "upd_plannerSession (cmd_update cmd) = None \<or>
     (\<exists>ps rid. plannerSession st = Some ps \<and>
        upd_plannerSession (cmd_update cmd) = Some \<lparr>threadId = threadId ps, runId = rid\<rparr>)"
proof -
  from assms obtain um threads tr1 plans tr2 reply tc tcs tr4 where
    "findLast isHumanMessage (messages st) = Some um"
    "fetchThreads env st = (Inr threads, tr1)"
    "fetchIssuePlans env st = (Inr plans, tr2)"
    "loadModel env = None"
    "invokeModel env (classificationRequest env st um threads plans) = Inr reply"
    "tool_calls reply = tc # tcs"
    and r: "routeMessage env st um (statusOf (fst threads)) reply (route tc) = (Inr cmd, tr4)"
    and "tr = tr1 @ tr2 @ InvokeModel (classificationRequest env st um threads plans) # tr4"
    by (rule classifyMessage_Inr)
  from r show ?thesis
  proof (cases rule: routeMessage_cases)
    case early
    then show ?thesis by (simp add: replyOnly_def empty_update_def)
  next
    case create
    then show ?thesis by (auto dest: createIssueBranch_Inr)
  next
    case (mirror n)
    from mirror(7) show ?thesis
      by (rule mirrorBranch_Inr)
         (auto simp: mkCommand_def mirrorUpdate_def empty_update_def plannerThreadId_def
            split: option.splits)
  next
    case (final n)
    then show ?thesis by (auto dest: finalRoute_Inr)
  qed
qed

lemma io_catch_Inr [simp]: "io_catch (Inr x, tr) h = (Inr x, tr)"
  by (simp add: io_catch_def)

lemma fst_reportError [simp]: "fst (reportError wenv p e) = Inr ()"
  by (auto simp: reportError_def io_catch_def io_bind_def call_unit_def ret_def Let_def
      split: option.splits prod.splits sum.splits)

lemma runsCreated_reportError [simp]: "runsCreated (snd (reportError wenv p e)) = []"
  by (auto simp: reportError_def io_catch_def io_bind_def call_unit_def ret_def Let_def
      split: option.splits prod.splits sum.splits)

lemma fst_io_catch:
  "fst (io_catch m h) = (case fst m of Inl e \<Rightarrow> fst (h e) | Inr x \<Rightarrow> Inr x)"
  by (cases m) (auto simp: io_catch_def split: sum.splits prod.splits)

lemma snd_io_catch:
  "snd (io_catch m h) = (case fst m of Inl e \<Rightarrow> snd m @ snd (h e) | Inr x \<Rightarrow> snd m)"
  by (cases m) (auto simp: io_catch_def split: sum.splits prod.splits)

lemma onIssuesLabeled_never_throws:
  "secretsEncryptionKey wenv \<Longrightarrow> fst (onIssuesLabeled wenv env p) = Inr ()"
  by (auto simp: onIssuesLabeled_def fst_io_catch split: sum.splits)

lemma runsCreated_processLabeled:
  "\<not> isAllowedUser wenv (sender_login p) \<Longrightarrow> runsCreated (snd (processLabeled wenv env p)) = []"
  by (auto simp: processLabeled_def getAuthentication_def snd_io_bind split: option.splits sum.splits)

lemma processLabeled_not_allowed:
  assumes "\<not> isAllowedUser wenv (sender_login p)"
    and "installation_id p = Some inst" and "inst \<noteq> 0"
    and "getInstallationOctokit wenv 0 inst = None"
    and "getInstallationAccessToken wenv inst = Inr token"
  shows "processLabeled wenv env p =
    (Inr (), [GetInstallationOctokit inst, GetInstallationAccessToken inst])"
  using assms
  by (simp add: processLabeled_def getAuthentication_def io_bind_def ret_def)

lemmas webhook_defs = onIssuesLabeled_def processLabeled_def reportError_def dispatchRun_def
  getAuthentication_def webhookRunInput_def isValidLabel_def validOpenSWELabels_def
  isAutoAcceptLabel_def isMaxLabel_def io_catch_def call_unit_def demo_webhook_env_def
  demo_payload_def

lemma refreshToken_Inr:
  "refreshToken env = (Inr u, tr) \<Longrightarrow> runsCreated tr = []"
  using trace_refreshToken [of env] by simp

lemma createNewSession_Inr:
  assumes "createNewSession env st = (Inr upd, tr)"
  shows "\<exists>fields number tr0.
      createIssueFieldsFromMessages env (messages st) = Inr fields \<and>
      createIssue env (newIssueRequest env st fields) = Inr (Some number) \<and>
      runsCreated tr0 = [] \<and>
      tr = tr0 @ [RunsCreate (uuidv4 env 2) MANAGER_GRAPH_ID
                    (ManagerCommandRun (newSessionUpdate env st fields number) ''start-planner'')] \<and>
      upd = empty_update\<lparr>upd_messages := Some
              [AIMessage (uuidv4 env 3) (sessionCreatedContent (uuidv4 env 2))]\<rparr>"
proof -
  let ?run = "\<lambda>fields number. RunsCreate (uuidv4 env 2) MANAGER_GRAPH_ID
                    (ManagerCommandRun (newSessionUpdate env st fields number) ''start-planner'')"
  from assms obtain fields t1 where
    a: "createIssueFieldsFromMessages env (messages st) = Inr fields"
    and b: "io_bind (call (CreateIssue (newIssueRequest env st fields))
                     (createIssue env (newIssueRequest env st fields)))
        (\<lambda>newIssue. case newIssue of
            None \<Rightarrow> throw (Error ''Failed to create new issue'')
          | Some number \<Rightarrow>
              io_bind (refreshToken env) (\<lambda>u.
              let newManagerThreadId = uuidv4 env 2;
                  payload = ManagerCommandRun (newSessionUpdate env st fields number)
                              ''start-planner''
              in io_bind (call (RunsCreate newManagerThreadId MANAGER_GRAPH_ID payload)
                            (runsCreate env newManagerThreadId MANAGER_GRAPH_ID payload))
                   (\<lambda>r. ret (empty_update\<lparr>upd_messages := Some
                           [AIMessage (uuidv4 env 3)
                              (sessionCreatedContent newManagerThreadId)]\<rparr>)))) = (Inr upd, t1)"
    and c: "tr = CreateIssueFields (messages st) # t1"
    unfolding createNewSession_def Let_def
    by (subst (asm) io_bind_call_Inr) blast
  from b obtain newIssue t2 where d: "createIssue env (newIssueRequest env st fields) = Inr newIssue"
    and e: "(case newIssue of
            None \<Rightarrow> throw (Error ''Failed to create new issue'')
          | Some number \<Rightarrow>
              io_bind (refreshToken env) (\<lambda>u.
              let newManagerThreadId = uuidv4 env 2;
                  payload = ManagerCommandRun (newSessionUpdate env st fields number)
                              ''start-planner''
              in io_bind (call (RunsCreate newManagerThreadId MANAGER_GRAPH_ID payload)
                            (runsCreate env newManagerThreadId MANAGER_GRAPH_ID payload))
                   (\<lambda>r. ret (empty_update\<lparr>upd_messages := Some
                           [AIMessage (uuidv4 env 3)
                              (sessionCreatedContent newManagerThreadId)]\<rparr>)))) = (Inr upd, t2)"
    and f: "t1 = CreateIssue (newIssueRequest env st fields) # t2"
    by (subst (asm) io_bind_call_Inr) blast
  from e obtain number where g: "newIssue = Some number"
    by (cases newIssue) simp_all
  with e obtain u t3 t4 where h: "refreshToken env = (Inr u, t3)"
    and i: "io_bind (call (?run fields number)
                       (runsCreate env (uuidv4 env 2) MANAGER_GRAPH_ID
                          (ManagerCommandRun (newSessionUpdate env st fields number) ''start-planner'')))
              (\<lambda>r. ret (empty_update\<lparr>upd_messages := Some
                           [AIMessage (uuidv4 env 3)
                              (sessionCreatedContent (uuidv4 env 2))]\<rparr>)) = (Inr upd, t4)"
    and j: "t2 = t3 @ t4"
    unfolding Let_def by (auto simp: io_bind_eq_Inr)
  from i have k: "t4 = [?run fields number]"
    and l: "upd = empty_update\<lparr>upd_messages := Some
              [AIMessage (uuidv4 env 3) (sessionCreatedContent (uuidv4 env 2))]\<rparr>"
    by (auto simp: io_bind_call_Inr)
  from refreshToken_Inr [OF h] have "runsCreated
      (CreateIssueFields (messages st) # CreateIssue (newIssueRequest env st fields) # t3) = []"
    by simp
  moreover from c f j k have "tr =
      (CreateIssueFields (messages st) # CreateIssue (newIssueRequest env st fields) # t3) @
      [?run fields number]"
    by simp
  ultimately show ?thesis using a d g l by blast
qed

section \<open>A backlog, and the first node of the graph\<close>

text \<open>A backlog of two messages: the comment calls go out in list order, and the pairs
  come back in completion order (the later call settles first here), each copy marked
  as a follow-up on that route.\<close>

lemma backlog_completion_order:
  "fst (classifyMessage (demo_services ''idle'' (demo_reply ''start_planner_for_followup''))
          demo_state_backlog) =
     Inr (mkCommand (empty_update\<lparr>upd_messages := Some
            [demo_reply ''start_planner_for_followup'',
             RemoveMessage ''m3'',
             taggedCopy 7 (Some 101) ''start_planner_for_followup''
               (demo_human ''m3'' ''And the signup'' None),
             RemoveMessage ''m2'',
             taggedCopy 7 (Some 100) ''start_planner_for_followup''
               (demo_human ''m2'' ''Also fix the logout'' None)]\<rparr>) (Node ''start-planner''))
   \<and> commentEffects (snd (classifyMessage
        (demo_services ''idle'' (demo_reply ''start_planner_for_followup'')) demo_state_backlog)) =
      [commentRequest demo_state_backlog 7 (demo_human ''m2'' ''Also fix the logout'' None),
       commentRequest demo_state_backlog 7 (demo_human ''m3'' ''And the signup'' None)]"
  by (simp add: demo_state_backlog_def classify_defs io_defs message_defs demo_defs)

text \<open>\<open>initializeGithubIssue\<close> on a conversation that has a human message and an issue:
  the plan it returns is the one extracted from the issue body, when the body is not
  empty and holds one, and the plan of the state otherwise.\<close>

lemma initializeGithubIssue_taskPlan:
  assumes "\<not> isLocalMode env" and "list_ex isHumanMessage (messages st)"
    and "githubIssueId st = Some n" and "n \<noteq> 0"
    and "initializeGithubIssue env st = (Inr upd, tr)"
  shows "\<exists>i. getIssue env (owner (targetRepo st)) (repo (targetRepo st)) n = Inr (Some i) \<and>
              upd = empty_update\<lparr>upd_taskPlan := planFromIssue env i (stateTaskPlan st)\<rparr>"
proof -
  from assms(2) have "messages st \<noteq> []" by auto
  with assms have "io_bind (fetchIssue env st n) (\<lambda>i.
      ret (empty_update\<lparr>upd_taskPlan := planFromIssue env i (stateTaskPlan st)\<rparr>)) = (Inr upd, tr)"
    by (simp add: initializeGithubIssue_def)
  then obtain i tr1 where "fetchIssue env st n = (Inr i, tr1)"
    and "upd = empty_update\<lparr>upd_taskPlan := planFromIssue env i (stateTaskPlan st)\<rparr>"
    by (auto simp: io_bind_eq_Inr)
  then show ?thesis
    by (auto simp: fetchIssue_def io_bind_call_Inr split: option.splits)
qed

lemma planFromIssue_priority:
  "planFromIssue env i current =
     (case issue_body i of
        Some b \<Rightarrow> (if b \<noteq> [] \<and> extractTasksFromIssueContent env b \<noteq> None
                   then extractTasksFromIssueContent env b else current)
      | None \<Rightarrow> current)"
  by (auto simp: planFromIssue_def split: option.splits)

section \<open>Answers that make a pass return\<close>

text \<open>The converse direction: when the lookups, the router, every comment call and the
  resume answer, the pass on a mirroring route returns its command.\<close>

lemma resumePlanner_not_interrupted:
  "ps \<noteq> ''interrupted'' \<Longrightarrow> resumePlanner env st ps = ret None"
  by (simp add: resumePlanner_def)

lemma routeMessage_resume_returns:
  assumes "ps \<noteq> ''interrupted''" and "\<not> isLocalMode env"
    and "githubIssueId st = Some n" and "n \<noteq> 0"
    and "1 < length (filter isHumanMessage (messages st)) \<longrightarrow>
         (\<exists>pushed. fst (createComments env st n ''resume_and_update_planner'') = Inr pushed)"
  shows "\<exists>cmd. fst (routeMessage env st um ps reply ''resume_and_update_planner'') = Inr cmd \<and>
               cmd_goto cmd = END"
proof (cases "1 < length (filter isHumanMessage (messages st))")
  case True
  with assms(5) obtain pushed where
    p: "fst (createComments env st n ''resume_and_update_planner'') = Inr pushed"
    by blast
  from True assms(2-4) have "routeMessage env st um ps reply ''resume_and_update_planner'' =
      mirrorBranch env st n ps reply ''resume_and_update_planner''"
    by (simp add: routeMessage_def)
  moreover from p assms(1) have
    "fst (mirrorBranch env st n ps reply ''resume_and_update_planner'') =
     Inr (mkCommand (mirrorUpdate st (reply # pushed) None) END)"
    by (simp add: mirrorBranch_def fst_io_bind resumePlanner_not_interrupted)
  ultimately show ?thesis by (simp add: mkCommand_def)
next
  case False
  with assms(2-4) have "routeMessage env st um ps reply ''resume_and_update_planner'' =
      finalRoute (Some n) [reply] ''resume_and_update_planner''"
    by (simp add: routeMessage_def)
  then show ?thesis
    by (simp add: finalRoute_def Let_def mkCommand_def)
qed

lemma classifyMessage_reaches_route:
  assumes "findLast isHumanMessage (messages st) = Some um"
    and "fetchThreads env st = (Inr threads, tr1)"
    and "fetchIssuePlans env st = (Inr plans, tr2)"
    and "loadModel env = None"
    and "invokeModel env (classificationRequest env st um threads plans) = Inr reply"
    and "tool_calls reply = tc # tcs"
  shows "fst (classifyMessage env st) =
         fst (routeMessage env st um (statusOf (fst threads)) reply (route tc))"
  using assms
  by (simp add: classifyMessage_def classifyFrom_def invokeRouter_def fst_io_bind call_def)

lemma collect_map_returns:
  "(\<forall>x \<in> set xs. \<exists>zs. f x = Inr zs) \<Longrightarrow> \<exists>ys. collect (map f xs) = Inr ys"
proof (induction xs)
  case Nil
  then show ?case by simp
next
  case (Cons x xs)
  then obtain zs ys where "f x = Inr zs" "collect (map f xs) = Inr ys" by auto
  then show ?case by simp
qed

lemma createComments_returns:
  assumes "\<forall>k < length (messagesNotInIssue st).
      \<exists>c. createIssueComment env k (commentRequest st n (messagesNotInIssue st ! k)) =
             Inr (Some c) \<and> c \<noteq> 0"
  shows "\<exists>pushed. fst (createComments env st n r) = Inr pushed"
proof -
  have "\<exists>zs. commentOutcome env st n r km = Inr zs"
    if "km \<in> set (completionOrder env (enumerate 0 (messagesNotInIssue st)))" for km
  proof -
    from that have "km \<in> set (enumerate 0 (messagesNotInIssue st))"
      by (simp add: completionOrder_def)
    then have "fst km < length (messagesNotInIssue st)"
      and "snd km = messagesNotInIssue st ! fst km"
      by (auto simp: in_set_enumerate_eq)
    with assms obtain c where
      "createIssueComment env (fst km) (commentRequest st n (snd km)) = Inr (Some c)" "c \<noteq> 0"
      by auto
    then show ?thesis
      by (simp add: commentOutcome_def truthy_num_def)
  qed
  then have "\<exists>ys. collect (map (commentOutcome env st n r)
      (completionOrder env (enumerate 0 (messagesNotInIssue st)))) = Inr ys"
    by (intro collect_map_returns) blast
  then show ?thesis
    by (simp add: createComments_def Let_def)
qed

lemma classifyMessage_mirror_returns:
  assumes "findLast isHumanMessage (messages st) = Some um"
    and "fetchThreads env st = (Inr threads, tr1)"
    and "fetchIssuePlans env st = (Inr plans, tr2)"
    and "loadModel env = None"
    and "invokeModel env (classificationRequest env st um threads plans) = Inr reply"
    and "tool_calls reply = tc # tcs"
    and "route tc \<noteq> ''no_op''" and "route tc \<noteq> ''create_new_issue''"
    and "\<not> isLocalMode env"
    and "githubIssueId st = Some n" and "n \<noteq> 0"
    and "1 < length (filter isHumanMessage (messages st))"
    and "\<forall>k < length (messagesNotInIssue st).
      \<exists>c. createIssueComment env k (commentRequest st n (messagesNotInIssue st ! k)) =
             Inr (Some c) \<and> c \<noteq> 0"
    and "statusOf (fst threads) = ''interrupted'' \<longrightarrow>
      (\<exists>ps rn. plannerSession st = Some ps \<and> threadId ps \<noteq> [] \<and>
         runsCreate env (threadId ps) PLANNER_GRAPH_ID
           (ResumeRun ''response'' ''resume planner'') = Inr rn)"
  shows "\<exists>cmd pushed. fst (classifyMessage env st) = Inr cmd \<and>
           upd_messages (cmd_update cmd) = Some (reply # pushed)"
proof -
  from createComments_returns [OF assms(13), of "route tc"] obtain pushed where
    p: "fst (createComments env st n (route tc)) = Inr pushed"
    by blast
  have "\<exists>np. fst (resumePlanner env st (statusOf (fst threads))) = Inr np"
  proof (cases "statusOf (fst threads) = ''interrupted''")
    case True
    with assms(14) obtain ps rn where "plannerSession st = Some ps" "threadId ps \<noteq> []"
      "runsCreate env (threadId ps) PLANNER_GRAPH_ID
           (ResumeRun ''response'' ''resume planner'') = Inr rn"
      by blast
    with True assms(9) show ?thesis
      by (simp add: resumePlanner_def plannerThreadId_def fst_io_bind)
  next
    case False
    then show ?thesis by (simp add: resumePlanner_not_interrupted)
  qed
  then obtain np where
    q: "fst (resumePlanner env st (statusOf (fst threads))) = Inr np"
    by blast
  from assms(7-12) have "routeMessage env st um (statusOf (fst threads)) reply (route tc) =
      mirrorBranch env st n (statusOf (fst threads)) reply (route tc)"
    by (simp add: routeMessage_def)
  moreover from p q have
    "fst (mirrorBranch env st n (statusOf (fst threads)) reply (route tc)) =
     Inr (mkCommand (mirrorUpdate st (reply # pushed) np)
            (if route tc = ''start_planner_for_followup'' then Node ''start-planner'' else END))"
    by (simp add: mirrorBranch_def fst_io_bind)
  moreover note classifyMessage_reaches_route [OF assms(1-6)]
  ultimately have "fst (classifyMessage env st) =
     Inr (mkCommand (mirrorUpdate st (reply # pushed) np)
            (if route tc = ''start_planner_for_followup'' then Node ''start-planner'' else END))"
    by simp
  then show ?thesis
    by (simp add: mkCommand_def mirrorUpdate_def empty_update_def)
qed

section \<open>Events the handler drops\<close>

text \<open>An event whose label is not one of the four labels causes no call at all. An event
  of a sender who is not on the allow-list never creates a run; no comment is posted
  for it when the payload has no installation id or when both authentication calls
  succeed. With \<open>SECRETS_ENCRYPTION_KEY\<close> set the handler does not throw.\<close>

lemma onIssuesLabeled_drops:
  "(\<not> isValidLabel wenv (label_name p) \<longrightarrow> snd (onIssuesLabeled wenv env p) = [])
   \<and> (\<not> isAllowedUser wenv (sender_login p) \<longrightarrow>
        runsCreated (snd (onIssuesLabeled wenv env p)) = []
        \<and> (installation_id p = None \<or> installation_id p = Some 0 \<or>
             (\<exists>inst token. installation_id p = Some inst \<and>
                getInstallationOctokit wenv 0 inst = None \<and>
                getInstallationAccessToken wenv inst = Inr token) \<longrightarrow>
              commentsPosted (snd (onIssuesLabeled wenv env p)) = []))
   \<and> (secretsEncryptionKey wenv \<longrightarrow> fst (onIssuesLabeled wenv env p) = Inr ())
   \<and> (\<forall>name. isValidLabel wenv (Some name) \<longleftrightarrow>
          name \<noteq> [] \<and>
          name \<in> {getOpenSWELabel wenv, getOpenSWEAutoAcceptLabel wenv, getOpenSWEMaxLabel wenv,
                  getOpenSWEMaxAutoAcceptLabel wenv})"
proof (intro conjI impI allI)
  assume "\<not> isValidLabel wenv (label_name p)"
  then show "snd (onIssuesLabeled wenv env p) = []"
    by (simp add: onIssuesLabeled_def)
next
  assume "\<not> isAllowedUser wenv (sender_login p)"
  then show "runsCreated (snd (onIssuesLabeled wenv env p)) = []"
    by (auto simp: onIssuesLabeled_def snd_io_catch runsCreated_processLabeled split: sum.splits)
next
  assume na: "\<not> isAllowedUser wenv (sender_login p)"
    and inst: "installation_id p = None \<or> installation_id p = Some 0 \<or>
       (\<exists>inst token. installation_id p = Some inst \<and>
          getInstallationOctokit wenv 0 inst = None \<and>
          getInstallationAccessToken wenv inst = Inr token)"
  have "fst (processLabeled wenv env p) = Inr () \<and>
        commentsPosted (snd (processLabeled wenv env p)) = []"
  proof (cases "installation_id p = None \<or> installation_id p = Some 0")
    case True
    then show ?thesis by (auto simp: processLabeled_def)
  next
    case False
    with inst obtain i token where "installation_id p = Some i" "i \<noteq> 0"
      "getInstallationOctokit wenv 0 i = None"
      "getInstallationAccessToken wenv i = Inr token"
      by auto
    from processLabeled_not_allowed [OF na this] show ?thesis by simp
  qed
  then show "commentsPosted (snd (onIssuesLabeled wenv env p)) = []"
    by (simp add: onIssuesLabeled_def snd_io_catch)
next
  assume "secretsEncryptionKey wenv"
  then show "fst (onIssuesLabeled wenv env p) = Inr ()"
    by (rule onIssuesLabeled_never_throws)
next
  fix name
  show "isValidLabel wenv (Some name) \<longleftrightarrow>
          name \<noteq> [] \<and>
          name \<in> {getOpenSWELabel wenv, getOpenSWEAutoAcceptLabel wenv, getOpenSWEMaxLabel wenv,
                  getOpenSWEMaxAutoAcceptLabel wenv}"
    by (auto simp: isValidLabel_def validOpenSWELabels_def)
qed

text \<open>When both authentication calls fail, the error comment carries the message of the
  one that settled first.\<close>

lemma authentication_first_rejection:
  "commentsPosted (snd (onIssuesLabeled
      ((demo_webhook_env (Inl (Error ''token down'')))
         \<lparr>getInstallationOctokit :=
            (\<lambda>k inst. if k = 0 then Some (Error ''client down'') else None)\<rparr>)
      (demo_services ''idle'' (demo_reply ''no_op''))
      (demo_payload ''open-swe'' ''alice''))) = [Failed ''token down'']
   \<and> commentsPosted (snd (onIssuesLabeled
      ((demo_webhook_env (Inl (Error ''token down'')))
         \<lparr>getInstallationOctokit :=
            (\<lambda>k inst. if k = 0 then Some (Error ''client down'') else None),
          clientSettlesFirst := True\<rparr>)
      (demo_services ''idle'' (demo_reply ''no_op''))
      (demo_payload ''open-swe'' ''alice''))) = [Failed ''client down'']"
  by (simp add: webhook_defs io_defs Let_def)

section \<open>Claims\<close>

subsection \<open>C1\<close>

text \<open>
  Claim C1. The messages selected for comment creation are human messages of the state
  whose \<open>additional_kwargs\<close> hold no \<open>githubIssueId\<close> (absent, or 0, which the
  negation of the source treats alike). The comments one pass of \<open>classifyMessage\<close>
  creates are none at all, or one per selected message, in order, on the state's issue.
  So a state whose human messages all carry the id gets no comment, and the tagged copy
  the mirroring step emits is never selected again, in any state.
\<close>

theorem C1_mirror_once:
  "(\<forall>m \<in> set (messagesNotInIssue st).
       m \<in> set (messages st) \<and> isHumanMessage m \<and> \<not> truthy_num (kw_githubIssueId (kwargs m)))
   \<and> (commentEffects (snd (classifyMessage env st)) = [] \<or>
        (\<exists>n. githubIssueId st = Some n \<and> n \<noteq> 0 \<and>
           commentEffects (snd (classifyMessage env st)) =
             map (commentRequest st n) (messagesNotInIssue st)))
   \<and> ((\<forall>m \<in> set (messages st). isHumanMessage m \<longrightarrow> truthy_num (kw_githubIssueId (kwargs m))) \<longrightarrow>
        commentEffects (snd (classifyMessage env st)) = [])
   \<and> (\<forall>n c r m st'. n \<noteq> 0 \<longrightarrow> taggedCopy n c r m \<notin> set (messagesNotInIssue st'))"
proof (intro conjI)
  show sel: "\<forall>m \<in> set (messagesNotInIssue st).
       m \<in> set (messages st) \<and> isHumanMessage m \<and> \<not> truthy_num (kw_githubIssueId (kwargs m))"
    by (simp add: messagesNotInIssue_def)
  show eff: "commentEffects (snd (classifyMessage env st)) = [] \<or>
        (\<exists>n. githubIssueId st = Some n \<and> n \<noteq> 0 \<and>
           commentEffects (snd (classifyMessage env st)) =
             map (commentRequest st n) (messagesNotInIssue st))"
    using commentEffects_classifyMessage [of env st] by blast
  show "(\<forall>m \<in> set (messages st). isHumanMessage m \<longrightarrow> truthy_num (kw_githubIssueId (kwargs m))) \<longrightarrow>
        commentEffects (snd (classifyMessage env st)) = []"
  proof
    assume "\<forall>m \<in> set (messages st). isHumanMessage m \<longrightarrow> truthy_num (kw_githubIssueId (kwargs m))"
    then have "messagesNotInIssue st = []"
      by (auto simp: messagesNotInIssue_def filter_empty_conv)
    with eff show "commentEffects (snd (classifyMessage env st)) = []" by auto
  qed
  show "\<forall>n c r m st'. n \<noteq> 0 \<longrightarrow> taggedCopy n c r m \<notin> set (messagesNotInIssue st')"
    by (simp add: messagesNotInIssue_def taggedCopy_tagged)
qed

text \<open>
  In the two-message conversation only the second message is selected and commented;
  after its tagged copy has replaced it, a further pass creates no comment.
\<close>

theorem C1_mirror_once_witness:
  "messagesNotInIssue demo_state = [demo_human ''m2'' ''Also fix the logout'' None]
   \<and> commentEffects (snd (classifyMessage
        (demo_services ''idle'' (demo_reply ''update_planner'')) demo_state)) =
      [commentRequest demo_state 7 (demo_human ''m2'' ''Also fix the logout'' None)]
   \<and> commentEffects (snd (classifyMessage
        (demo_services ''idle'' (demo_reply ''update_planner'')) demo_state_mirrored)) = []"
proof -
  let ?env = "demo_services ''idle'' (demo_reply ''update_planner'')"
  have a: "messagesNotInIssue demo_state = [demo_human ''m2'' ''Also fix the logout'' None]"
    by (simp add: messagesNotInIssue_def message_defs demo_defs)
  have b: "commentEffects (snd (classifyMessage ?env demo_state)) \<noteq> []"
    by (simp add: classify_defs io_defs message_defs demo_defs)
  have c: "githubIssueId demo_state = Some 7"
    by (simp add: demo_defs)
  have d: "\<forall>m \<in> set (messages demo_state_mirrored).
      isHumanMessage m \<longrightarrow> truthy_num (kw_githubIssueId (kwargs m))"
    by (simp add: demo_state_mirrored_def taggedCopy_def message_defs demo_defs)
  from C1_mirror_once [of demo_state ?env] a b c
  have "commentEffects (snd (classifyMessage ?env demo_state)) =
      [commentRequest demo_state 7 (demo_human ''m2'' ''Also fix the logout'' None)]"
    by auto
  moreover from C1_mirror_once [of demo_state_mirrored ?env] d
  have "commentEffects (snd (classifyMessage ?env demo_state_mirrored)) = []"
    by blast
  ultimately show ?thesis using a by simp
qed

subsection \<open>C2\<close>

text \<open>
  Claim C2. With a planner session in the state, \<open>startPlanner\<close> creates its run against
  the session's thread id and returns that thread id with the new run id;
  \<open>classifyMessage\<close> creates no run but a resume against that thread id, and the planner
  session of its update, when present, carries that thread id. Without a planner session
  \<open>startPlanner\<close> uses the identifier \<open>uuidv4()\<close> generates.
\<close>

theorem C2_thread_id_stable:
  "(\<forall>ps. plannerSession st = Some ps \<longrightarrow>
       (\<forall>x \<in> set (runsCreated (snd (startPlanner env st))).
           x = (threadId ps, PLANNER_GRAPH_ID, PlannerRun (plannerRunInput env st)))
     \<and> (\<forall>upd tr. startPlanner env st = (Inr upd, tr) \<longrightarrow>
           (\<exists>rn. runsCreate env (threadId ps) PLANNER_GRAPH_ID
                    (PlannerRun (plannerRunInput env st)) = Inr rn \<and>
                 upd = empty_update\<lparr>upd_plannerSession :=
                         Some \<lparr>threadId = threadId ps, runId = run_id rn\<rparr>\<rparr>))
     \<and> (\<forall>x \<in> set (runsCreated (snd (classifyMessage env st))).
           x = (threadId ps, PLANNER_GRAPH_ID, ResumeRun ''response'' ''resume planner''))
     \<and> (\<forall>cmd tr. classifyMessage env st = (Inr cmd, tr) \<longrightarrow>
           upd_plannerSession (cmd_update cmd) = None \<or>
           (\<exists>rid. upd_plannerSession (cmd_update cmd) =
                    Some \<lparr>threadId = threadId ps, runId = rid\<rparr>)))
   \<and> (plannerSession st = None \<longrightarrow>
       (\<forall>x \<in> set (runsCreated (snd (startPlanner env st))).
           x = (uuidv4 env 0, PLANNER_GRAPH_ID, PlannerRun (plannerRunInput env st)))
     \<and> (\<forall>upd tr. startPlanner env st = (Inr upd, tr) \<longrightarrow>
           (\<exists>rid. upd_plannerSession upd = Some \<lparr>threadId = uuidv4 env 0, runId = rid\<rparr>)))"
proof (intro conjI allI impI ballI)
  fix ps x
  assume "plannerSession st = Some ps" "x \<in> set (runsCreated (snd (startPlanner env st)))"
  with runsCreated_startPlanner [of env st]
  show "x = (threadId ps, PLANNER_GRAPH_ID, PlannerRun (plannerRunInput env st))"
    by (auto simp: plannerThreadOf_def)
next
  fix ps upd tr
  assume "plannerSession st = Some ps" "startPlanner env st = (Inr upd, tr)"
  with startPlanner_Inr [of env st upd tr]
  show "\<exists>rn. runsCreate env (threadId ps) PLANNER_GRAPH_ID
                    (PlannerRun (plannerRunInput env st)) = Inr rn \<and>
                 upd = empty_update\<lparr>upd_plannerSession :=
                         Some \<lparr>threadId = threadId ps, runId = run_id rn\<rparr>\<rparr>"
    by (simp add: plannerThreadOf_def)
next
  fix ps x
  assume "plannerSession st = Some ps" "x \<in> set (runsCreated (snd (classifyMessage env st)))"
  with runsCreated_classifyMessage [of x env st]
  show "x = (threadId ps, PLANNER_GRAPH_ID, ResumeRun ''response'' ''resume planner'')"
    by auto
next
  fix ps cmd tr
  assume "plannerSession st = Some ps" "classifyMessage env st = (Inr cmd, tr)"
  with classifyMessage_session [of env st cmd tr]
  show "upd_plannerSession (cmd_update cmd) = None \<or>
           (\<exists>rid. upd_plannerSession (cmd_update cmd) =
                    Some \<lparr>threadId = threadId ps, runId = rid\<rparr>)"
    by auto
next
  fix x
  assume "plannerSession st = None" "x \<in> set (runsCreated (snd (startPlanner env st)))"
  with runsCreated_startPlanner [of env st]
  show "x = (uuidv4 env 0, PLANNER_GRAPH_ID, PlannerRun (plannerRunInput env st))"
    by (auto simp: plannerThreadOf_def)
next
  fix upd tr
  assume "plannerSession st = None" "startPlanner env st = (Inr upd, tr)"
  with startPlanner_Inr [of env st upd tr]
  show "\<exists>rid. upd_plannerSession upd = Some \<lparr>threadId = uuidv4 env 0, runId = rid\<rparr>"
    by (auto simp: plannerThreadOf_def empty_update_def)
qed

text \<open>
  Starting and resuming the planner of the conversation both address "planner-1"; a
  state without a planner session gets the generated identifier.
\<close>

theorem C2_thread_id_stable_witness:
  "fst (startPlanner (demo_services ''idle'' (demo_reply ''start_planner'')) demo_state) =
     Inr (empty_update\<lparr>upd_plannerSession :=
            Some \<lparr>threadId = ''planner-1'', runId = ''run-1''\<rparr>\<rparr>)
   \<and> map fst (runsCreated (snd (startPlanner (demo_services ''idle'' (demo_reply ''start_planner''))
        demo_state))) = [''planner-1'']
   \<and> map fst (runsCreated (snd (classifyMessage
        (demo_services ''interrupted'' (demo_reply ''update_planner'')) demo_state))) =
      [''planner-1'']
   \<and> map fst (runsCreated (snd (startPlanner (demo_services ''idle'' (demo_reply ''start_planner''))
        (demo_state\<lparr>plannerSession := None\<rparr>)))) = [''uuid-'']"
proof -
  let ?env = "demo_services ''idle'' (demo_reply ''start_planner'')"
  let ?envI = "demo_services ''interrupted'' (demo_reply ''update_planner'')"
  let ?ps = "\<lparr>threadId = ''planner-1'', runId = ''run-0''\<rparr>"
  let ?new = "demo_state\<lparr>plannerSession := None\<rparr>"
  note c2 = C2_thread_id_stable [of demo_state ?env]
  have ps: "plannerSession demo_state = Some ?ps"
    by (simp add: demo_defs)
  obtain upd tr where run: "startPlanner ?env demo_state = (Inr upd, tr)"
    by (simp add: startPlanner_def plannerThreadOf_def refreshToken_def plannerRunInput_def
        io_defs message_defs demo_defs)
  have rc: "runsCreate ?env ''planner-1'' PLANNER_GRAPH_ID
      (PlannerRun (plannerRunInput ?env demo_state)) =
      Inr \<lparr>run_id = ''run-1'', run_status = ''pending''\<rparr>"
    by (simp add: demo_defs)
  from c2 ps run rc have 1: "upd = empty_update\<lparr>upd_plannerSession :=
      Some \<lparr>threadId = ''planner-1'', runId = ''run-1''\<rparr>\<rparr>"
    by fastforce
  have n1: "length (runsCreated (snd (startPlanner ?env demo_state))) = 1"
    by (simp add: startPlanner_def plannerThreadOf_def refreshToken_def plannerRunInput_def
        io_defs message_defs demo_defs)
  have n2: "length (runsCreated (snd (classifyMessage ?envI demo_state))) = 1"
    by (simp add: classify_defs io_defs message_defs demo_defs)
  have n3: "length (runsCreated (snd (startPlanner ?env ?new))) = 1"
    by (simp add: startPlanner_def plannerThreadOf_def refreshToken_def plannerRunInput_def
        io_defs message_defs demo_defs)
  have one: "map fst xs = [a]" if "length xs = 1" "\<forall>x \<in> set xs. fst x = a"
    for xs :: "(string \<times> graph_id \<times> run_payload) list" and a
    using that by (cases xs) auto
  from c2 ps have "\<forall>x \<in> set (runsCreated (snd (startPlanner ?env demo_state))). fst x = ''planner-1''"
    by fastforce
  with n1 have 2: "map fst (runsCreated (snd (startPlanner ?env demo_state))) = [''planner-1'']"
    by (rule one)
  from C2_thread_id_stable [of demo_state ?envI] ps
  have "\<forall>x \<in> set (runsCreated (snd (classifyMessage ?envI demo_state))). fst x = ''planner-1''"
    by fastforce
  with n2 have 3: "map fst (runsCreated (snd (classifyMessage ?envI demo_state))) = [''planner-1'']"
    by (rule one)
  have "plannerSession ?new = None" by simp
  with C2_thread_id_stable [of ?new ?env]
  have "\<forall>x \<in> set (runsCreated (snd (startPlanner ?env ?new))). fst x = uuidv4 ?env 0"
    by fastforce
  moreover have "uuidv4 ?env 0 = ''uuid-''" by (simp add: demo_defs)
  ultimately have "\<forall>x \<in> set (runsCreated (snd (startPlanner ?env ?new))). fst x = ''uuid-''"
    by simp
  with n3 have 4: "map fst (runsCreated (snd (startPlanner ?env ?new))) = [''uuid-'']"
    by (rule one)
  from run 1 2 3 4 show ?thesis by simp
qed

subsection \<open>C3\<close>

text \<open>
  Claim C3, amended. Every run \<open>classifyMessage\<close> creates is a resume of the planner:
  it is issued outside local mode, against the thread id of the state's planner session,
  and only when that thread reports the status "interrupted". A pass that returns on the
  route \<open>resume_and_update_planner\<close> ends the graph (\<open>goto END\<close>), so no fresh run follows
  it. With a planner thread that is not interrupted no run is created at all, and the
  pass has no error of its own for that case: on that route, outside local mode, for a
  state with an issue, it returns with \<open>goto END\<close> once the lookups, the router and the
  comment calls have answered.
\<close>

theorem C3_resume_only_when_interrupted:
  "(\<forall>x \<in> set (runsCreated (snd (classifyMessage env st))).
        \<not> isLocalMode env \<and>
        (\<exists>ps th. plannerSession st = Some ps \<and> threadId ps \<noteq> [] \<and>
           threadsGet env (threadId ps) = Inr th \<and> status th = ''interrupted'' \<and>
           x = (threadId ps, PLANNER_GRAPH_ID, ResumeRun ''response'' ''resume planner'')))
   \<and> (\<forall>cmd tr reply pushed tc tcs.
         classifyMessage env st = (Inr cmd, tr) \<longrightarrow>
         upd_messages (cmd_update cmd) = Some (reply # pushed) \<longrightarrow>
         tool_calls reply = tc # tcs \<longrightarrow>
         route tc = ''resume_and_update_planner'' \<longrightarrow>
           cmd_goto cmd = END \<and> \<not> isLocalMode env)
   \<and> (\<forall>ps th. plannerSession st = Some ps \<longrightarrow> threadsGet env (threadId ps) = Inr th \<longrightarrow>
         status th \<noteq> ''interrupted'' \<longrightarrow> runsCreated (snd (classifyMessage env st)) = [])
   \<and> (\<forall>um threads tr1 plans tr2 reply tc tcs n.
         findLast isHumanMessage (messages st) = Some um \<longrightarrow>
         fetchThreads env st = (Inr threads, tr1) \<longrightarrow>
         statusOf (fst threads) \<noteq> ''interrupted'' \<longrightarrow>
         fetchIssuePlans env st = (Inr plans, tr2) \<longrightarrow>
         loadModel env = None \<longrightarrow>
         invokeModel env (classificationRequest env st um threads plans) = Inr reply \<longrightarrow>
         tool_calls reply = tc # tcs \<longrightarrow>
         route tc = ''resume_and_update_planner'' \<longrightarrow>
         \<not> isLocalMode env \<longrightarrow>
         githubIssueId st = Some n \<longrightarrow> n \<noteq> 0 \<longrightarrow>
         (1 < length (filter isHumanMessage (messages st)) \<longrightarrow>
            (\<exists>pushed. fst (createComments env st n ''resume_and_update_planner'') = Inr pushed)) \<longrightarrow>
           (\<exists>cmd. fst (classifyMessage env st) = Inr cmd \<and> cmd_goto cmd = END))"
proof (intro conjI ballI allI impI)
  fix um threads tr1 plans tr2 reply tc tcs n
  assume a: "findLast isHumanMessage (messages st) = Some um"
    "fetchThreads env st = (Inr threads, tr1)"
    "fetchIssuePlans env st = (Inr plans, tr2)"
    "loadModel env = None"
    "invokeModel env (classificationRequest env st um threads plans) = Inr reply"
    "tool_calls reply = tc # tcs"
    and r: "route tc = ''resume_and_update_planner''"
    and b: "statusOf (fst threads) \<noteq> ''interrupted''" "\<not> isLocalMode env"
    "githubIssueId st = Some n" "n \<noteq> 0"
    "1 < length (filter isHumanMessage (messages st)) \<longrightarrow>
       (\<exists>pushed. fst (createComments env st n ''resume_and_update_planner'') = Inr pushed)"
  from a have "fst (classifyMessage env st) =
      fst (routeMessage env st um (statusOf (fst threads)) reply (route tc))"
    by (rule classifyMessage_reaches_route)
  with r routeMessage_resume_returns [OF b, of um reply]
  show "\<exists>cmd. fst (classifyMessage env st) = Inr cmd \<and> cmd_goto cmd = END"
    by simp
next
  fix ps th
  assume "plannerSession st = Some ps" "threadsGet env (threadId ps) = Inr th"
    "status th \<noteq> ''interrupted''"
  then have "x \<notin> set (runsCreated (snd (classifyMessage env st)))" for x
    using runsCreated_classifyMessage [of x env st] by auto
  then show "runsCreated (snd (classifyMessage env st)) = []"
    by (meson last_in_set)
next
  fix x assume "x \<in> set (runsCreated (snd (classifyMessage env st)))"
  from runsCreated_classifyMessage [OF this]
  show "\<not> isLocalMode env"
    and "\<exists>ps th. plannerSession st = Some ps \<and> threadId ps \<noteq> [] \<and>
           threadsGet env (threadId ps) = Inr th \<and> status th = ''interrupted'' \<and>
           x = (threadId ps, PLANNER_GRAPH_ID, ResumeRun ''response'' ''resume planner'')"
    by blast+
next
  fix cmd tr reply pushed tc tcs
  assume a: "classifyMessage env st = (Inr cmd, tr)"
    "upd_messages (cmd_update cmd) = Some (reply # pushed)"
    and b: "tool_calls reply = tc # tcs" "route tc = ''resume_and_update_planner''"
  from a obtain um threads tr1 plans tr2 tr4 where
    "findLast isHumanMessage (messages st) = Some um"
    "fetchThreads env st = (Inr threads, tr1)"
    "fetchIssuePlans env st = (Inr plans, tr2)"
    "\<forall>tc tcs. tool_calls reply = tc # tcs \<longrightarrow>
       routeMessage env st um (statusOf (fst threads)) reply (route tc) = (Inr cmd, tr4)"
    "tr = tr1 @ tr2 @ InvokeModel (classificationRequest env st um threads plans) # tr4"
    by (rule classifyMessage_route)
  with b have r: "routeMessage env st um (statusOf (fst threads)) reply
      ''resume_and_update_planner'' = (Inr cmd, tr4)"
    by metis
  then show "cmd_goto cmd = END" by (rule routeMessage_resume_goto)
  from r show "\<not> isLocalMode env"
    by (auto simp: routeMessage_def throw_def)
qed

text \<open>
  The claim as stated fails: on the route \<open>resume_and_update_planner\<close> with a planner
  thread that reports "idle", the pass does not fail. It mirrors the new message and
  returns the update with \<open>goto END\<close>, creating no run.
\<close>

theorem C3_resume_only_when_interrupted_counterexample:
  "threadsGet (demo_services ''idle'' (demo_reply ''resume_and_update_planner'')) ''planner-1'' =
     Inr \<lparr>status = ''idle'', programmerThreadId = None\<rparr>
   \<and> route (hd (tool_calls (demo_reply ''resume_and_update_planner''))) =
       ''resume_and_update_planner''
   \<and> fst (classifyMessage (demo_services ''idle'' (demo_reply ''resume_and_update_planner''))
          demo_state) =
       Inr (mkCommand (empty_update\<lparr>upd_messages := Some
              [demo_reply ''resume_and_update_planner'', RemoveMessage ''m2'',
               taggedCopy 7 (Some 100) ''resume_and_update_planner''
                 (demo_human ''m2'' ''Also fix the logout'' None)]\<rparr>) END)
   \<and> runsCreated (snd (classifyMessage
        (demo_services ''idle'' (demo_reply ''resume_and_update_planner'')) demo_state)) = []"
  by (simp add: classify_defs io_defs message_defs demo_defs)

text \<open>
  With the status "interrupted" the one run created is the resume against "planner-1";
  with the status "idle" there is none.
\<close>

theorem C3_resume_only_when_interrupted_witness:
  "runsCreated (snd (classifyMessage
      (demo_services ''interrupted'' (demo_reply ''resume_and_update_planner'')) demo_state)) =
     [(''planner-1'', PLANNER_GRAPH_ID, ResumeRun ''response'' ''resume planner'')]
   \<and> (\<exists>th. threadsGet (demo_services ''interrupted'' (demo_reply ''resume_and_update_planner''))
              ''planner-1'' = Inr th \<and> status th = ''interrupted'')
   \<and> runsCreated (snd (classifyMessage
        (demo_services ''idle'' (demo_reply ''resume_and_update_planner'')) demo_state)) = []"
proof -
  let ?envI = "demo_services ''interrupted'' (demo_reply ''resume_and_update_planner'')"
  let ?env = "demo_services ''idle'' (demo_reply ''resume_and_update_planner'')"
  let ?x = "(''planner-1'', PLANNER_GRAPH_ID, ResumeRun ''response'' ''resume planner'')"
  have a: "runsCreated (snd (classifyMessage ?envI demo_state)) = [?x]"
    by (simp add: classify_defs io_defs message_defs demo_defs)
  then have "?x \<in> set (runsCreated (snd (classifyMessage ?envI demo_state)))"
    by simp
  with C3_resume_only_when_interrupted [of ?envI demo_state]
  have b: "\<exists>th. threadsGet ?envI ''planner-1'' = Inr th \<and> status th = ''interrupted''"
    by fastforce
  have c: "plannerSession demo_state = Some \<lparr>threadId = ''planner-1'', runId = ''run-0''\<rparr>"
    "threadsGet ?env (threadId \<lparr>threadId = ''planner-1'', runId = ''run-0''\<rparr>) =
       Inr \<lparr>status = ''idle'', programmerThreadId = None\<rparr>"
    "status \<lparr>status = ''idle'', programmerThreadId = None\<rparr> \<noteq> ''interrupted''"
    by (simp_all add: demo_defs)
  from C3_resume_only_when_interrupted [of ?env demo_state, THEN conjunct2, THEN conjunct2,
      THEN conjunct1, rule_format, OF c]
  have "runsCreated (snd (classifyMessage ?env demo_state)) = []" .
  with a b show ?thesis by blast
qed

subsection \<open>C4\<close>

text \<open>
  Claim C4, amended. A pass that returns, outside local mode, on a route other than
  \<open>no_op\<close> and \<open>create_new_issue\<close>, for a state with an issue id and more than one
  human message: it issued exactly one \<open>createIssueComment\<close> per human message without
  \<open>githubIssueId\<close>; each call answered a comment id; and the messages returned after
  the reply are, for each such message in some order, a \<open>RemoveMessage\<close> for its id
  followed by its copy tagged with the issue id and that comment id.
\<close>

theorem C4_mirroring:
  assumes "classifyMessage env st = (Inr cmd, tr)"
    and "upd_messages (cmd_update cmd) = Some (reply # pushed)"
    and "tool_calls reply = tc # tcs"
    and "route tc \<noteq> ''no_op''" and "route tc \<noteq> ''create_new_issue''"
    and "\<not> isLocalMode env"
    and "githubIssueId st = Some n" and "n \<noteq> 0"
    and "1 < length (filter isHumanMessage (messages st))"
  shows "commentEffects tr = map (commentRequest st n) (messagesNotInIssue st) \<and>
    (\<exists>ids. length ids = length (messagesNotInIssue st) \<and>
       (\<forall>k < length (messagesNotInIssue st).
          createIssueComment env k (commentRequest st n (messagesNotInIssue st ! k)) =
            Inr (Some (ids ! k)) \<and> ids ! k \<noteq> 0) \<and>
       (\<exists>ps. mset ps = mset (zip (messagesNotInIssue st) ids) \<and>
          pushed = concat (map (\<lambda>mc.
            [RemoveMessage (case msg_id (fst mc) of None \<Rightarrow> [] | Some i \<Rightarrow> i),
             taggedCopy n (Some (snd mc)) (route tc) (fst mc)]) ps)))"
proof -
  from assms obtain threads tr0 tr1 newPlannerId tr2 where
    "fst (fetchThreads env st) = Inr threads"
    and a: "commentEffects tr0 = []" and "runsCreated tr0 = []"
    and b: "createComments env st n (route tc) = (Inr pushed, tr1)"
    and c: "resumePlanner env st (statusOf (fst threads)) = (Inr newPlannerId, tr2)"
    and "cmd = mkCommand (mirrorUpdate st (reply # pushed) newPlannerId)
             (if route tc = ''start_planner_for_followup'' then Node ''start-planner'' else END)"
    and d: "tr = tr0 @ tr1 @ tr2"
    by (rule classifyMessage_mirrored)
  note cc = createComments_Inr [OF b]
  from c have "commentEffects tr2 = []"
    using commentEffects_resumePlanner [of env st "statusOf (fst threads)"] by simp
  with a d cc have "commentEffects tr = map (commentRequest st n) (messagesNotInIssue st)"
    by (simp add: comp_def)
  with cc show ?thesis by blast
qed

text \<open>
  The claim as stated fails for a state with an issue and a single human message that
  carries no tag: the guard on the number of human messages skips the mirroring, no
  comment is created and the update holds the reply only.
\<close>

theorem C4_mirroring_counterexample:
  "githubIssueId demo_state_single = Some 7
   \<and> messagesNotInIssue demo_state_single = [demo_human ''m2'' ''Also fix the logout'' None]
   \<and> fst (classifyMessage (demo_services ''idle'' (demo_reply ''update_planner''))
          demo_state_single) =
       Inr (mkCommand (empty_update\<lparr>upd_messages := Some [demo_reply ''update_planner''],
              upd_githubIssueId := Some 7\<rparr>) END)
   \<and> commentEffects (snd (classifyMessage (demo_services ''idle'' (demo_reply ''update_planner''))
          demo_state_single)) = []"
  by (simp add: demo_state_single_def classify_defs io_defs message_defs demo_defs)

text \<open>
  The two-message conversation: one comment for the second message, which comes back
  retracted and tagged with comment id 100.
\<close>

theorem C4_mirroring_witness:
  "commentEffects (snd (classifyMessage (demo_services ''idle'' (demo_reply ''update_planner''))
      demo_state)) =
     [commentRequest demo_state 7 (demo_human ''m2'' ''Also fix the logout'' None)]
   \<and> fst (classifyMessage (demo_services ''idle'' (demo_reply ''update_planner'')) demo_state) =
       Inr (mkCommand (empty_update\<lparr>upd_messages := Some
              [demo_reply ''update_planner'', RemoveMessage ''m2'',
               taggedCopy 7 (Some 100) ''update_planner''
                 (demo_human ''m2'' ''Also fix the logout'' None)]\<rparr>) END)"
proof -
  let ?env = "demo_services ''idle'' (demo_reply ''update_planner'')"
  let ?m2 = "demo_human ''m2'' ''Also fix the logout'' None"
  let ?cmd = "mkCommand (empty_update\<lparr>upd_messages := Some
              [demo_reply ''update_planner'', RemoveMessage ''m2'',
               taggedCopy 7 (Some 100) ''update_planner'' ?m2]\<rparr>) END"
  have f: "fst (classifyMessage ?env demo_state) = Inr ?cmd"
    by (simp add: classify_defs io_defs message_defs demo_defs)
  then have run: "classifyMessage ?env demo_state = (Inr ?cmd, snd (classifyMessage ?env demo_state))"
    by (metis prod.collapse)
  have u: "upd_messages (cmd_update ?cmd) = Some (demo_reply ''update_planner'' #
      [RemoveMessage ''m2'', taggedCopy 7 (Some 100) ''update_planner'' ?m2])"
    by (simp add: mkCommand_def empty_update_def)
  have t: "tool_calls (demo_reply ''update_planner'') =
      \<lparr>route = ''update_planner'', response = ''On it.'', internal_reasoning = ''asked''\<rparr> # []"
    by (simp add: demo_reply_def)
  have h: "\<not> isLocalMode ?env" "githubIssueId demo_state = Some 7" "(7::nat) \<noteq> 0"
    "1 < length (filter isHumanMessage (messages demo_state))"
    by (simp_all add: message_defs demo_defs)
  have ms: "messagesNotInIssue demo_state = [?m2]"
    by (simp add: messagesNotInIssue_def message_defs demo_defs)
  from C4_mirroring [OF run u t _ _ h] ms
  have "commentEffects (snd (classifyMessage ?env demo_state)) = [commentRequest demo_state 7 ?m2]"
    by simp
  with f show ?thesis by simp
qed

subsection \<open>C5\<close>

text \<open>
  Claim C5. The task plan of every classification request: with an issue id in the state,
  the plans were fetched from the issue, and the request carries the issue's task plan
  when there is one and the state's plan otherwise; without an issue id it carries the
  state's plan.
\<close>

theorem C5_ticket_plan_priority:
  assumes "req \<in> set (modelInvocations (snd (classifyMessage env st)))"
  shows "(truthy_num (githubIssueId st) \<longrightarrow>
            (\<exists>plans. getPlansFromIssue env st = Inr plans \<and>
               (\<forall>p tp. plans = Some p \<longrightarrow> plansTaskPlan p = Some tp \<longrightarrow>
                    req_taskPlan req = Some tp) \<and>
               (\<forall>p. plans = Some p \<longrightarrow> plansTaskPlan p = None \<longrightarrow>
                    req_taskPlan req = stateTaskPlan st) \<and>
               (plans = None \<longrightarrow> req_taskPlan req = stateTaskPlan st)))
         \<and> (\<not> truthy_num (githubIssueId st) \<longrightarrow> req_taskPlan req = stateTaskPlan st)"
proof -
  from modelInvocations_classifyMessage_taskPlan [OF assms] obtain plans where
    p: "fst (fetchIssuePlans env st) = Inr plans"
       "req_taskPlan req = classificationTaskPlan plans st"
    by blast
  show ?thesis
  proof (cases "truthy_num (githubIssueId st)")
    case True
    with p have "getPlansFromIssue env st = Inr plans"
      by (simp add: fst_fetchIssuePlans)
    with True p(2) show ?thesis
      by (auto simp: classificationTaskPlan_def)
  next
    case False
    with p have "plans = None"
      by (simp add: fst_fetchIssuePlans)
    with False p(2) show ?thesis
      by (simp add: classificationTaskPlan_def)
  qed
qed

text \<open>The state holds the plan "in memory", the ticket the plan "from ticket"; the request
  carries the ticket's.\<close>

theorem C5_ticket_plan_priority_witness:
  "truthy_num (githubIssueId demo_state)
   \<and> stateTaskPlan demo_state = Some \<lparr>tasks = [''in memory''], activeTaskIndex = 0\<rparr>
   \<and> map req_taskPlan (modelInvocations
        (snd (classifyMessage (demo_services ''idle'' (demo_reply ''update_planner'')) demo_state))) =
      [Some \<lparr>tasks = [''from ticket''], activeTaskIndex = 0\<rparr>]"
proof -
  let ?env = "demo_services ''idle'' (demo_reply ''update_planner'')"
  obtain req where r: "modelInvocations (snd (classifyMessage ?env demo_state)) = [req]"
    by (simp add: classify_defs io_defs message_defs demo_defs)
  then have m: "req \<in> set (modelInvocations (snd (classifyMessage ?env demo_state)))"
    by simp
  have t: "truthy_num (githubIssueId demo_state)"
    by (simp add: truthy_num_def demo_defs)
  have g: "getPlansFromIssue ?env demo_state =
      Inr (Some \<lparr>plansTaskPlan = Some \<lparr>tasks = [''from ticket''], activeTaskIndex = 0\<rparr>,
                  proposedPlan = None\<rparr>)"
    by (simp add: demo_defs)
  from C5_ticket_plan_priority [OF m] t g
  have "req_taskPlan req = Some \<lparr>tasks = [''from ticket''], activeTaskIndex = 0\<rparr>"
    by simp
  moreover have "stateTaskPlan demo_state = Some \<lparr>tasks = [''in memory''], activeTaskIndex = 0\<rparr>"
    by (simp add: demo_defs)
  ultimately show ?thesis using r t by simp
qed

subsection \<open>C6\<close>

text \<open>
  Claim C6. When \<open>createNewSession\<close> returns, its update holds the confirmation message
  and nothing else: no issue id, no session, no task plan, no repository, no branch. The
  message names the new thread and links to it. The one run created is a manager run on
  the generated thread id, and the new issue's number, the repository and the messages
  built from the issue fields travel in that run's command.
\<close>

theorem C6_fork_isolation:
  assumes "createNewSession env st = (Inr upd, tr)"
  shows "upd = empty_update\<lparr>upd_messages := Some
              [AIMessage (uuidv4 env 3) (sessionCreatedContent (uuidv4 env 2))]\<rparr>
   \<and> upd_githubIssueId upd = None \<and> upd_plannerSession upd = None
   \<and> upd_programmerSession upd = None \<and> upd_taskPlan upd = None
   \<and> upd_targetRepo upd = None \<and> upd_branchName upd = None \<and> upd_autoAcceptPlan upd = None
   \<and> (\<exists>fields number.
         createIssueFieldsFromMessages env (messages st) = Inr fields \<and>
         createIssue env (newIssueRequest env st fields) = Inr (Some number) \<and>
         runsCreated tr =
           [(uuidv4 env 2, MANAGER_GRAPH_ID,
             ManagerCommandRun (newSessionUpdate env st fields number) ''start-planner'')] \<and>
         upd_githubIssueId (newSessionUpdate env st fields number) = Some number \<and>
         upd_targetRepo (newSessionUpdate env st fields number) = Some (targetRepo st) \<and>
         upd_messages (newSessionUpdate env st fields number) \<noteq> None)"
proof -
  from createNewSession_Inr [OF assms] obtain fields number tr0 where
    a: "createIssueFieldsFromMessages env (messages st) = Inr fields"
    and a': "createIssue env (newIssueRequest env st fields) = Inr (Some number)"
    and b: "runsCreated tr0 = []"
    "tr = tr0 @ [RunsCreate (uuidv4 env 2) MANAGER_GRAPH_ID
                    (ManagerCommandRun (newSessionUpdate env st fields number) ''start-planner'')]"
    and c: "upd = empty_update\<lparr>upd_messages := Some
              [AIMessage (uuidv4 env 3) (sessionCreatedContent (uuidv4 env 2))]\<rparr>"
    by blast
  from b have r: "runsCreated tr =
           [(uuidv4 env 2, MANAGER_GRAPH_ID,
             ManagerCommandRun (newSessionUpdate env st fields number) ''start-planner'')]"
    by simp
  have n: "upd_githubIssueId (newSessionUpdate env st fields number) = Some number"
    "upd_targetRepo (newSessionUpdate env st fields number) = Some (targetRepo st)"
    "upd_messages (newSessionUpdate env st fields number) \<noteq> None"
    by (simp_all add: newSessionUpdate_def empty_update_def)
  from c have frame: "upd_githubIssueId upd = None" "upd_plannerSession upd = None"
    "upd_programmerSession upd = None" "upd_taskPlan upd = None"
    "upd_targetRepo upd = None" "upd_branchName upd = None" "upd_autoAcceptPlan upd = None"
    by (simp_all add: empty_update_def)
  have "\<exists>fields number.
         createIssueFieldsFromMessages env (messages st) = Inr fields \<and>
         createIssue env (newIssueRequest env st fields) = Inr (Some number) \<and>
         runsCreated tr =
           [(uuidv4 env 2, MANAGER_GRAPH_ID,
             ManagerCommandRun (newSessionUpdate env st fields number) ''start-planner'')] \<and>
         upd_githubIssueId (newSessionUpdate env st fields number) = Some number \<and>
         upd_targetRepo (newSessionUpdate env st fields number) = Some (targetRepo st) \<and>
         upd_messages (newSessionUpdate env st fields number) \<noteq> None"
    using a a' r n by (intro exI [of _ fields] exI [of _ number] conjI)
  with c frame show ?thesis by (intro conjI)
qed

text \<open>
  Forking the conversation on ticket 7: the parent gets the confirmation only, the run
  goes to the generated thread "uuid-ii" and carries the new issue 8.
\<close>

theorem C6_fork_isolation_witness:
  "fst (createNewSession (demo_services ''idle'' (demo_reply ''create_new_issue'')) demo_state) =
     Inr (empty_update\<lparr>upd_messages := Some
            [AIMessage ''uuid-iii'' (sessionCreatedContent ''uuid-ii'')]\<rparr>)
   \<and> map fst (runsCreated (snd (createNewSession
        (demo_services ''idle'' (demo_reply ''create_new_issue'')) demo_state))) = [''uuid-ii'']
   \<and> githubIssueId demo_state = Some 7
   \<and> createIssue (demo_services ''idle'' (demo_reply ''create_new_issue''))
        (newIssueRequest (demo_services ''idle'' (demo_reply ''create_new_issue'')) demo_state
           (''Login'', ''Fix the login bug'')) = Inr (Some 8)"
proof -
  let ?env = "demo_services ''idle'' (demo_reply ''create_new_issue'')"
  obtain upd tr where run: "createNewSession ?env demo_state = (Inr upd, tr)"
    by (simp add: createNewSession_def refreshToken_def newSessionUpdate_def io_defs message_defs
        demo_defs Let_def)
  have u: "uuidv4 ?env 2 = ''uuid-ii''" "uuidv4 ?env 3 = ''uuid-iii''"
    by (simp_all add: demo_defs eval_nat_numeral)
  from C6_fork_isolation [OF run] u
  have "upd = empty_update\<lparr>upd_messages := Some
            [AIMessage ''uuid-iii'' (sessionCreatedContent ''uuid-ii'')]\<rparr>"
    and "map fst (runsCreated tr) = [''uuid-ii'']"
    by auto
  moreover have "githubIssueId demo_state = Some 7"
    "createIssue ?env (newIssueRequest ?env demo_state (''Login'', ''Fix the login bug'')) =
       Inr (Some 8)"
    by (simp_all add: demo_defs)
  ultimately show ?thesis using run by simp
qed

subsection \<open>C7\<close>

text \<open>
  Claim C7. A state without a human message makes \<open>classifyMessage\<close> throw
  "No human message found." having issued no call at all. With at least one human
  message the function goes on with the last human message of the list, and every
  classification request it sends takes its user content and its request source from
  that message.
\<close>

theorem C7_no_human_message:
  "(filter isHumanMessage (messages st) = [] \<longrightarrow>
      classifyMessage env st = (Inl (Error ''No human message found.''), []))
   \<and> (filter isHumanMessage (messages st) \<noteq> [] \<longrightarrow>
        classifyMessage env st =
          classifyFrom env st (last (filter isHumanMessage (messages st)))
        \<and> (\<forall>req \<in> set (modelInvocations (snd (classifyMessage env st))).
              req_userContent req =
                extractContentWithoutDetailsFromIssueBody env
                  (content (last (filter isHumanMessage (messages st))))
              \<and> req_requestSource req =
                  kw_requestSource (kwargs (last (filter isHumanMessage (messages st))))))"
proof (intro conjI impI)
  assume "filter isHumanMessage (messages st) = []"
  then have "findLast isHumanMessage (messages st) = None"
    by (simp add: findLast_None)
  then show "classifyMessage env st = (Inl (Error ''No human message found.''), [])"
    by (simp add: classifyMessage_def throw_def)
next
  assume h: "filter isHumanMessage (messages st) \<noteq> []"
  then have f: "findLast isHumanMessage (messages st) =
      Some (last (filter isHumanMessage (messages st)))"
    by (rule findLast_Some)
  then show c: "classifyMessage env st =
      classifyFrom env st (last (filter isHumanMessage (messages st)))"
    by (simp add: classifyMessage_def)
  show "\<forall>req \<in> set (modelInvocations (snd (classifyMessage env st))).
      req_userContent req =
        extractContentWithoutDetailsFromIssueBody env
          (content (last (filter isHumanMessage (messages st))))
      \<and> req_requestSource req =
          kw_requestSource (kwargs (last (filter isHumanMessage (messages st))))"
    unfolding c modelInvocations_classifyFrom
    by (auto simp: classificationRequest_def split: sum.splits)
qed

text \<open>Both cases at concrete states: one with an assistant message only, and the two-message
  conversation, where the second human message is the one classified.\<close>

theorem C7_no_human_message_witness:
  "classifyMessage (demo_services ''idle'' (demo_reply ''no_op''))
      (demo_state\<lparr>messages := [AIMessage ''a1'' ''Planning.'']\<rparr>) =
     (Inl (Error ''No human message found.''), [])
   \<and> classifyMessage (demo_services ''idle'' (demo_reply ''no_op'')) demo_state =
       classifyFrom (demo_services ''idle'' (demo_reply ''no_op'')) demo_state
         (demo_human ''m2'' ''Also fix the logout'' None)
   \<and> map req_userContent
        (modelInvocations (snd (classifyMessage (demo_services ''idle'' (demo_reply ''no_op''))
           demo_state))) = [''Also fix the logout'']"
proof -
  have a: "filter isHumanMessage (messages (demo_state\<lparr>messages := [AIMessage ''a1'' ''Planning.'']\<rparr>)) = []"
    by (simp add: message_defs)
  have b: "filter isHumanMessage (messages demo_state) =
      [demo_human ''m1'' ''Fix the login bug'' (Some 7), demo_human ''m2'' ''Also fix the logout'' None]"
    by (simp add: message_defs demo_defs)
  from C7_no_human_message [of "demo_state\<lparr>messages := [AIMessage ''a1'' ''Planning.'']\<rparr>"
        "demo_services ''idle'' (demo_reply ''no_op'')"] a
  have 1: "classifyMessage (demo_services ''idle'' (demo_reply ''no_op''))
      (demo_state\<lparr>messages := [AIMessage ''a1'' ''Planning.'']\<rparr>) =
     (Inl (Error ''No human message found.''), [])"
    by blast
  from C7_no_human_message [of demo_state "demo_services ''idle'' (demo_reply ''no_op'')"] b
  have 2: "classifyMessage (demo_services ''idle'' (demo_reply ''no_op'')) demo_state =
       classifyFrom (demo_services ''idle'' (demo_reply ''no_op'')) demo_state
         (demo_human ''m2'' ''Also fix the logout'' None)"
    by simp
  have 3: "map req_userContent
        (modelInvocations (snd (classifyMessage (demo_services ''idle'' (demo_reply ''no_op''))
           demo_state))) = [''Also fix the logout'']"
    by (simp add: classify_defs io_defs message_defs demo_defs)
  from 1 2 3 show ?thesis by blast
qed

subsection \<open>C8\<close>

text \<open>
  Claim C8. One pass of \<open>classifyMessage\<close> invokes the router model at most once, and
  exactly once when a human message exists, the thread and plan lookups succeed and the
  model loads. When the reply to that call has no tool call, the pass throws
  "No tool call found." and issues nothing after the one invocation.
\<close>

theorem C8_classification_once:
  "length (modelInvocations (snd (classifyMessage env st))) \<le> 1
   \<and> (\<forall>um threads tr1 plans tr2.
        findLast isHumanMessage (messages st) = Some um \<longrightarrow>
        fetchThreads env st = (Inr threads, tr1) \<longrightarrow>
        fetchIssuePlans env st = (Inr plans, tr2) \<longrightarrow>
        loadModel env = None \<longrightarrow>
          modelInvocations (snd (classifyMessage env st)) =
            [classificationRequest env st um threads plans]
          \<and> (\<forall>reply.
                invokeModel env (classificationRequest env st um threads plans) = Inr reply \<longrightarrow>
                tool_calls reply = [] \<longrightarrow>
                  classifyMessage env st =
                    (Inl (Error ''No tool call found.''),
                     tr1 @ tr2 @ [InvokeModel (classificationRequest env st um threads plans)])))"
proof (intro conjI allI impI)
  show "length (modelInvocations (snd (classifyMessage env st))) \<le> 1"
    by (auto simp: classifyMessage_def modelInvocations_classifyFrom
        split: option.splits sum.splits)
next
  fix um threads tr1 plans tr2
  assume a: "findLast isHumanMessage (messages st) = Some um"
    "fetchThreads env st = (Inr threads, tr1)"
    "fetchIssuePlans env st = (Inr plans, tr2)"
    "loadModel env = None"
  then show "modelInvocations (snd (classifyMessage env st)) =
      [classificationRequest env st um threads plans]"
    by (simp add: classifyMessage_def modelInvocations_classifyFrom)
  fix reply
  assume "invokeModel env (classificationRequest env st um threads plans) = Inr reply"
    "tool_calls reply = []"
  with a show "classifyMessage env st =
      (Inl (Error ''No tool call found.''),
       tr1 @ tr2 @ [InvokeModel (classificationRequest env st um threads plans)])"
    by (simp add: classifyMessage_def classifyFrom_no_tool_call)
qed

text \<open>A router that answers in plain text, without a tool call.\<close>

theorem C8_classification_once_witness:
  "classifyMessage (demo_services ''idle'' (AIMessage ''r0'' ''Hello'')) demo_state =
     (Inl (Error ''No tool call found.''),
      [ThreadsGet ''planner-1'', GetPlansFromIssue 7] @
      [InvokeModel (classificationRequest (demo_services ''idle'' (AIMessage ''r0'' ''Hello''))
         demo_state (demo_human ''m2'' ''Also fix the logout'' None)
         (Some \<lparr>status = ''idle'', programmerThreadId = None\<rparr>, None)
         (Some \<lparr>plansTaskPlan = Some \<lparr>tasks = [''from ticket''], activeTaskIndex = 0\<rparr>,
                 proposedPlan = None\<rparr>))])
   \<and> length (modelInvocations
        (snd (classifyMessage (demo_services ''idle'' (AIMessage ''r0'' ''Hello'')) demo_state))) = 1"
proof -
  let ?env = "demo_services ''idle'' (AIMessage ''r0'' ''Hello'')"
  let ?um = "demo_human ''m2'' ''Also fix the logout'' None"
  let ?threads = "(Some \<lparr>status = ''idle'', programmerThreadId = None\<rparr>, None :: thread option)"
  let ?plans = "Some \<lparr>plansTaskPlan = Some \<lparr>tasks = [''from ticket''], activeTaskIndex = 0\<rparr>,
                 proposedPlan = None\<rparr>"
  have a: "findLast isHumanMessage (messages demo_state) = Some ?um"
    by (simp add: message_defs demo_defs)
  have b: "fetchThreads ?env demo_state = (Inr ?threads, [ThreadsGet ''planner-1''])"
    by (simp add: fetchThreads_def getThreadIfSet_def plannerThreadId_def io_defs demo_defs)
  have c: "fetchIssuePlans ?env demo_state = (Inr ?plans, [GetPlansFromIssue 7])"
    by (simp add: fetchIssuePlans_def io_defs demo_defs)
  have d: "loadModel ?env = None"
    by (simp add: demo_defs)
  have e: "invokeModel ?env (classificationRequest ?env demo_state ?um ?threads ?plans) =
      Inr (AIMessage ''r0'' ''Hello'')"
    by (simp add: demo_defs)
  have f: "tool_calls (AIMessage ''r0'' ''Hello'') = []"
    by (simp add: AIMessage_def)
  from C8_classification_once [of ?env demo_state, THEN conjunct2, rule_format, OF a b c d]
  have g: "modelInvocations (snd (classifyMessage ?env demo_state)) =
      [classificationRequest ?env demo_state ?um ?threads ?plans]"
    and h: "classifyMessage ?env demo_state =
      (Inl (Error ''No tool call found.''),
       [ThreadsGet ''planner-1''] @ [GetPlansFromIssue 7] @
       [InvokeModel (classificationRequest ?env demo_state ?um ?threads ?plans)])"
    using e f by blast+
  from g h show ?thesis by simp
qed

subsection \<open>C9\<close>

text \<open>
  Claim C9. The handler does not keep what the claim says for a sender who is not on the
  allow-list. The allow-list is consulted after the two authentication calls, inside
  the \<open>try\<close> block; when the token cannot be obtained, the \<open>catch\<close> block runs without the
  sender ever being checked and posts an error comment on the issue. The same event
  with a token that is obtained is dropped in silence, as the \<open>return\<close> after the
  allow-list check intends. Both runs, for the label "open-swe" applied by mallory:
\<close>

theorem C9_unlisted_sender_error_comment:
  "isValidLabel (demo_webhook_env (Inl (Error ''token service unavailable'')))
     (label_name (demo_payload ''open-swe'' ''mallory''))
   \<and> \<not> isAllowedUser (demo_webhook_env (Inl (Error ''token service unavailable'')))
          (sender_login (demo_payload ''open-swe'' ''mallory''))
   \<and> onIssuesLabeled (demo_webhook_env (Inl (Error ''token service unavailable'')))
        (demo_services ''idle'' (demo_reply ''no_op'')) (demo_payload ''open-swe'' ''mallory'') =
       (Inr (),
        [GetInstallationOctokit 55, GetInstallationAccessToken 55, GetInstallationOctokit 55,
         PostIssueComment ''acme'' ''shop'' 7 (Failed ''token service unavailable'')])
   \<and> onIssuesLabeled (demo_webhook_env (Inr ''token''))
        (demo_services ''idle'' (demo_reply ''no_op'')) (demo_payload ''open-swe'' ''mallory'') =
       (Inr (), [GetInstallationOctokit 55, GetInstallationAccessToken 55])"
  by (simp add: webhook_defs io_defs Let_def)

subsection \<open>C10\<close>

text \<open>
  Claim C10, amended. A pass that returns, outside local mode, on a route other than
  \<open>no_op\<close> and \<open>create_new_issue\<close>, for a state with an issue id, more than one human
  message and a planner session whose thread reports the status "interrupted": its
  trace ends with the comment calls of the mirroring step followed by one
  \<open>runs.create\<close> with a resume command against the thread id of the state's planner
  session, and nothing before them creates a run or a comment. The update carries that
  thread id with the run id the service answered (when the run id is not empty).
\<close>

theorem C10_resume_after_mirroring:
  assumes "classifyMessage env st = (Inr cmd, tr)"
    and "upd_messages (cmd_update cmd) = Some (reply # pushed)"
    and "tool_calls reply = tc # tcs"
    and "route tc \<noteq> ''no_op''" and "route tc \<noteq> ''create_new_issue''"
    and "\<not> isLocalMode env"
    and "githubIssueId st = Some n" and "n \<noteq> 0"
    and "1 < length (filter isHumanMessage (messages st))"
    and "plannerSession st = Some ps" and "threadId ps \<noteq> []"
    and "threadsGet env (threadId ps) = Inr th" and "status th = ''interrupted''"
  shows "\<exists>tr0 rn.
      tr = tr0 @ map (\<lambda>m. CreateIssueComment (commentRequest st n m)) (messagesNotInIssue st) @
             [RunsCreate (threadId ps) PLANNER_GRAPH_ID (ResumeRun ''response'' ''resume planner'')]
      \<and> commentEffects tr0 = [] \<and> runsCreated tr0 = []
      \<and> runsCreate env (threadId ps) PLANNER_GRAPH_ID
            (ResumeRun ''response'' ''resume planner'') = Inr rn
      \<and> (run_id rn \<noteq> [] \<longrightarrow>
            upd_plannerSession (cmd_update cmd) =
              Some \<lparr>threadId = threadId ps, runId = run_id rn\<rparr>)
      \<and> (run_id rn = [] \<longrightarrow> upd_plannerSession (cmd_update cmd) = None)"
proof -
  from assms(1-9) obtain threads tr0 tr1 newPlannerId tr2 where
    a: "fst (fetchThreads env st) = Inr threads"
    and b: "commentEffects tr0 = []" "runsCreated tr0 = []"
    and c: "createComments env st n (route tc) = (Inr pushed, tr1)"
    and d: "resumePlanner env st (statusOf (fst threads)) = (Inr newPlannerId, tr2)"
    and e: "cmd = mkCommand (mirrorUpdate st (reply # pushed) newPlannerId)
             (if route tc = ''start_planner_for_followup'' then Node ''start-planner'' else END)"
    and f: "tr = tr0 @ tr1 @ tr2"
    by (rule classifyMessage_mirrored)
  from planner_status [OF a assms(6,10,11,12)] assms(13)
  have "statusOf (fst threads) = ''interrupted''" by simp
  with d have "resumePlanner env st ''interrupted'' = (Inr newPlannerId, tr2)" by simp
  from resumePlanner_interrupted [OF this assms(10)] obtain rn where
    g: "runsCreate env (threadId ps) PLANNER_GRAPH_ID
          (ResumeRun ''response'' ''resume planner'') = Inr rn"
    "newPlannerId = Some (run_id rn)"
    "tr2 = [RunsCreate (threadId ps) PLANNER_GRAPH_ID (ResumeRun ''response'' ''resume planner'')]"
    by blast
  from c have h: "tr1 = map (\<lambda>m. CreateIssueComment (commentRequest st n m)) (messagesNotInIssue st)"
    using trace_createComments [of env st n "route tc"] by simp
  from e g(2) assms(10,11) have
    "run_id rn \<noteq> [] \<longrightarrow> upd_plannerSession (cmd_update cmd) =
        Some \<lparr>threadId = threadId ps, runId = run_id rn\<rparr>"
    "run_id rn = [] \<longrightarrow> upd_plannerSession (cmd_update cmd) = None"
    by (simp_all add: mkCommand_def mirrorUpdate_def plannerThreadId_def empty_update_def)
  with b f g(1,3) h show ?thesis by blast
qed

text \<open>
  The claim as stated fails for the route \<open>no_op\<close>: with a ticket, two human messages
  and an interrupted planner, the pass returns the reply alone, creates no run and
  leaves the planner session out of the update.
\<close>

theorem C10_resume_after_mirroring_counterexample:
  "githubIssueId demo_state = Some 7
   \<and> length (filter isHumanMessage (messages demo_state)) = 2
   \<and> plannerSession demo_state = Some \<lparr>threadId = ''planner-1'', runId = ''run-0''\<rparr>
   \<and> threadsGet (demo_services ''interrupted'' (demo_reply ''no_op'')) ''planner-1'' =
       Inr \<lparr>status = ''interrupted'', programmerThreadId = None\<rparr>
   \<and> fst (classifyMessage (demo_services ''interrupted'' (demo_reply ''no_op'')) demo_state) =
       Inr (mkCommand (replyOnly (demo_reply ''no_op'')) END)
   \<and> runsCreated (snd (classifyMessage (demo_services ''interrupted'' (demo_reply ''no_op''))
        demo_state)) = []
   \<and> upd_plannerSession (replyOnly (demo_reply ''no_op'')) = None"
  by (simp add: classify_defs io_defs message_defs demo_defs)

text \<open>
  The same state with the route \<open>update_planner\<close>: one resume against "planner-1", and
  the update carries the run id "run-1" under that thread id.
\<close>

theorem C10_resume_after_mirroring_witness:
  "runsCreated (snd (classifyMessage (demo_services ''interrupted'' (demo_reply ''update_planner''))
      demo_state)) =
     [(''planner-1'', PLANNER_GRAPH_ID, ResumeRun ''response'' ''resume planner'')]
   \<and> fst (classifyMessage (demo_services ''interrupted'' (demo_reply ''update_planner''))
          demo_state) =
       Inr (mkCommand (empty_update\<lparr>upd_messages := Some
              [demo_reply ''update_planner'', RemoveMessage ''m2'',
               taggedCopy 7 (Some 100) ''update_planner''
                 (demo_human ''m2'' ''Also fix the logout'' None)],
              upd_plannerSession := Some \<lparr>threadId = ''planner-1'', runId = ''run-1''\<rparr>\<rparr>) END)"
proof -
  let ?env = "demo_services ''interrupted'' (demo_reply ''update_planner'')"
  let ?m2 = "demo_human ''m2'' ''Also fix the logout'' None"
  let ?pushed = "[RemoveMessage ''m2'', taggedCopy 7 (Some 100) ''update_planner'' ?m2]"
  let ?cmd = "mkCommand (empty_update\<lparr>upd_messages := Some (demo_reply ''update_planner'' # ?pushed),
      upd_plannerSession := Some \<lparr>threadId = ''planner-1'', runId = ''run-1''\<rparr>\<rparr>) END"
  let ?ps = "\<lparr>threadId = ''planner-1'', runId = ''run-0''\<rparr>"
  have f: "fst (classifyMessage ?env demo_state) = Inr ?cmd"
    by (simp add: classify_defs io_defs message_defs demo_defs)
  then have run: "classifyMessage ?env demo_state = (Inr ?cmd, snd (classifyMessage ?env demo_state))"
    by (metis prod.collapse)
  have u: "upd_messages (cmd_update ?cmd) = Some (demo_reply ''update_planner'' # ?pushed)"
    by (simp add: mkCommand_def empty_update_def)
  have t: "tool_calls (demo_reply ''update_planner'') =
      \<lparr>route = ''update_planner'', response = ''On it.'', internal_reasoning = ''asked''\<rparr> # []"
    by (simp add: demo_reply_def)
  have h: "\<not> isLocalMode ?env" "githubIssueId demo_state = Some 7" "(7::nat) \<noteq> 0"
    "1 < length (filter isHumanMessage (messages demo_state))"
    "plannerSession demo_state = Some ?ps" "threadId ?ps \<noteq> []"
    "threadsGet ?env (threadId ?ps) = Inr \<lparr>status = ''interrupted'', programmerThreadId = None\<rparr>"
    "status \<lparr>status = ''interrupted'', programmerThreadId = None\<rparr> = ''interrupted''"
    by (simp_all add: message_defs demo_defs)
  have rr: "runsCreate ?env ''planner-1'' PLANNER_GRAPH_ID (ResumeRun ''response'' ''resume planner'') =
      Inr \<lparr>run_id = ''run-1'', run_status = ''pending''\<rparr>"
    by (simp add: demo_defs)
  from C10_resume_after_mirroring [OF run u t _ _ h] obtain tr0 rn where
    a: "snd (classifyMessage ?env demo_state) =
        tr0 @ map (\<lambda>m. CreateIssueComment (commentRequest demo_state 7 m))
                (messagesNotInIssue demo_state) @
        [RunsCreate ''planner-1'' PLANNER_GRAPH_ID (ResumeRun ''response'' ''resume planner'')]"
    and b: "runsCreated tr0 = []"
    and c: "runsCreate ?env ''planner-1'' PLANNER_GRAPH_ID (ResumeRun ''response'' ''resume planner'') =
        Inr rn"
    and d: "run_id rn \<noteq> [] \<longrightarrow> upd_plannerSession (cmd_update ?cmd) =
        Some \<lparr>threadId = ''planner-1'', runId = run_id rn\<rparr>"
    by auto
  from c rr have "run_id rn = ''run-1''" by auto
  with d have e: "upd_plannerSession (cmd_update ?cmd) =
      Some \<lparr>threadId = ''planner-1'', runId = ''run-1''\<rparr>" by simp
  from a b have "runsCreated (snd (classifyMessage ?env demo_state)) =
      [(''planner-1'', PLANNER_GRAPH_ID, ResumeRun ''response'' ''resume planner'')]"
    by simp
  with e f show ?thesis by simp
qed

end
